theory Spec2Isabelle
  imports Complex_Main
begin

section \<open>Naval War: the single-player simulation core\<close>

text \<open>
  A shallow embedding of \<^verbatim>\<open>SinglePlayerServer\<close> and \<^verbatim>\<open>SpatialHashGrid\<close>.
  JavaScript numbers are idealised: coordinates, velocities, angles and lifetimes are
  \<^typ>\<open>real\<close>; quantities the program only ever builds from integer constants by
  addition, subtraction and rounding (health, damage, xp, level, score, stat points,
  upgrade points, millisecond timestamps) are \<^typ>\<open>int\<close>. Rounding error, NaN and
  infinities of IEEE doubles are outside the model.
\<close>

subsection \<open>SpatialHashGrid\<close>

text \<open>
  \<^verbatim>\<open>buckets\<close> is a \<^verbatim>\<open>Map<number, T[]>\<close>; only lookups by key are made, so it is a
  partial function. A stored value is whatever reference the caller inserts.
\<close>

record 'a SpatialHashGrid =
  cellSize :: real
  buckets :: "int \<rightharpoonup> 'a list"

definition newGrid :: "real \<Rightarrow> 'a SpatialHashGrid" where
  "newGrid cs = \<lparr>cellSize = max 1 cs, buckets = Map.empty\<rparr>"

text \<open>
  \<^verbatim>\<open>((((cx & 0xffff) << 16) | (cy & 0xffff)) >>> 0)\<close>: the low 16 bits of each cell
  coordinate (two's complement, so the mathematical \<open>mod\<close>), packed into an unsigned
  32-bit number.
\<close>

definition key :: "int \<Rightarrow> int \<Rightarrow> int" where
  "key cx cy = (cx mod 65536) * 65536 + (cy mod 65536)"

definition grid_insert :: "'a SpatialHashGrid \<Rightarrow> real \<Rightarrow> real \<Rightarrow> 'a \<Rightarrow> 'a SpatialHashGrid" where
  "grid_insert g x y v =
     (let cx = \<lfloor>x / cellSize g\<rfloor>;
          cy = \<lfloor>y / cellSize g\<rfloor>;
          k = key cx cy
      in case buckets g k of
           Some bucket \<Rightarrow> g\<lparr>buckets := (buckets g)(k \<mapsto> bucket @ [v])\<rparr>
         | None \<Rightarrow> g\<lparr>buckets := (buckets g)(k \<mapsto> [v])\<rparr>)"

text \<open>The body of the two nested \<^verbatim>\<open>for\<close> loops of \<^verbatim>\<open>queryInto\<close>: one cell.\<close>

definition pushCell :: "'a SpatialHashGrid \<Rightarrow> int \<Rightarrow> 'a list \<Rightarrow> int \<Rightarrow> 'a list" where
  "pushCell g cy out cx =
     (case buckets g (key cx cy) of None \<Rightarrow> out | Some bucket \<Rightarrow> out @ bucket)"

text \<open>
  \<^verbatim>\<open>out.length = 0\<close> truncates the caller's buffer; the rows \<open>cy\<close> and the cells
  \<open>cx\<close> are then visited in ascending order and every bucket found is appended.
\<close>

definition queryInto :: "'a SpatialHashGrid \<Rightarrow> real \<Rightarrow> real \<Rightarrow> real \<Rightarrow> 'a list \<Rightarrow> 'a list" where
  "queryInto g x y range' out =
     (let out0 = take 0 out;
          r = max 0 range';
          minCx = \<lfloor>(x - r) / cellSize g\<rfloor>;
          maxCx = \<lfloor>(x + r) / cellSize g\<rfloor>;
          minCy = \<lfloor>(y - r) / cellSize g\<rfloor>;
          maxCy = \<lfloor>(y + r) / cellSize g\<rfloor>
      in foldl (\<lambda>acc cy. foldl (pushCell g cy) acc [minCx..maxCx]) out0 [minCy..maxCy])"

text \<open>A sequence of \<^verbatim>\<open>insert(x, y, v)\<close> calls, in order.\<close>

fun insertAll :: "'a SpatialHashGrid \<Rightarrow> (real \<times> real \<times> 'a) list \<Rightarrow> 'a SpatialHashGrid" where
  "insertAll g [] = g"
| "insertAll g ((x, y, v) # ps) = insertAll (grid_insert g x y v) ps"

subsection \<open>Islands and the geometry primitives\<close>

datatype IslandShape = circle | irregular

record Island =
  island_id :: string
  island_x :: real
  island_y :: real
  radius :: real
  shape :: IslandShape
  points :: "(real \<times> real) list option"
  seed :: "int option"

text \<open>\<^verbatim>\<open>v || d\<close> on numbers: \<open>d\<close> replaces a zero.\<close>

definition orElse :: "real \<Rightarrow> real \<Rightarrow> real" where
  "orElse v d = (if v = 0 then d else v)"

definition getFirstSegmentCircleHitT ::
  "real \<Rightarrow> real \<Rightarrow> real \<Rightarrow> real \<Rightarrow> real \<Rightarrow> real \<Rightarrow> real \<Rightarrow> real option" where
  "getFirstSegmentCircleHitT ax ay bx by' cx cy r =
     (let dx = bx - ax;
          dy = by' - ay;
          a = dx * dx + dy * dy
      in if a \<le> 1 / 10 ^ 9 then None
         else
           let fx = ax - cx;
               fy = ay - cy;
               b = 2 * (fx * dx + fy * dy);
               c = (fx * fx + fy * fy) - r * r;
               disc = b * b - 4 * a * c
           in if disc < 0 then None
              else
                let sqrtDisc = sqrt disc;
                    inv2a = 1 / (2 * a);
                    t1 = (- b - sqrtDisc) * inv2a;
                    t2 = (- b + sqrtDisc) * inv2a
                in if t1 \<ge> 0 \<and> t1 \<le> 1 then Some t1
                   else if t2 \<ge> 0 \<and> t2 \<le> 1 then Some t2
                   else None)"

definition isPointInIsland :: "real \<Rightarrow> real \<Rightarrow> Island \<Rightarrow> bool" where
  "isPointInIsland px py island =
     (let dx = px - island_x island;
          dy = py - island_y island
      in (dx * dx + dy * dy) < (radius island * radius island))"

definition clampEntityOutsideIslandAlongSegment ::
  "real \<Rightarrow> real \<Rightarrow> real \<Rightarrow> real \<Rightarrow> real \<Rightarrow> Island \<Rightarrow> real \<times> real" where
  "clampEntityOutsideIslandAlongSegment prevX prevY nextX nextY entityRadius island =
     (let expanded = radius island + entityRadius;
          endDx = nextX - island_x island;
          endDy = nextY - island_y island;
          endDistSq = endDx * endDx + endDy * endDy
      in if endDistSq < expanded * expanded then
           (let endDist = sqrt endDistSq;
                epsilon = 1 / 100
            in if endDist > 1 / 10 ^ 6 then
                 (island_x island + (endDx / endDist) * (expanded + epsilon),
                  island_y island + (endDy / endDist) * (expanded + epsilon))
               else
                 (let mvx = nextX - prevX;
                      mvy = nextY - prevY;
                      mvLen = orElse (sqrt (mvx * mvx + mvy * mvy)) 1
                  in (island_x island + (mvx / mvLen) * (expanded + epsilon),
                      island_y island + (mvy / mvLen) * (expanded + epsilon))))
         else
           (case getFirstSegmentCircleHitT prevX prevY nextX nextY
                   (island_x island) (island_y island) expanded of
              None \<Rightarrow> (nextX, nextY)
            | Some t \<Rightarrow>
                (let hitX = prevX + (nextX - prevX) * t;
                     hitY = prevY + (nextY - prevY) * t;
                     nx = hitX - island_x island;
                     ny = hitY - island_y island;
                     len = orElse (sqrt (nx * nx + ny * ny)) 1;
                     epsilon = 1 / 100
                 in (island_x island + (nx / len) * (expanded + epsilon),
                     island_y island + (ny / len) * (expanded + epsilon)))))"

text \<open>
  Vocabulary for stating the clamp's guarantee: the squared distance of a point from
  the island's centre, the expanded collision radius, and a segment meeting the closed
  expanded disc.
\<close>

definition distSqToIsland :: "Island \<Rightarrow> real \<times> real \<Rightarrow> real" where
  "distSqToIsland island p =
     (fst p - island_x island) * (fst p - island_x island)
       + (snd p - island_y island) * (snd p - island_y island)"

definition expandedRadius :: "Island \<Rightarrow> real \<Rightarrow> real" where
  "expandedRadius island entityRadius = radius island + entityRadius"

definition strictlyInside :: "Island \<Rightarrow> real \<Rightarrow> real \<times> real \<Rightarrow> bool" where
  "strictlyInside island entityRadius p \<longleftrightarrow>
     distSqToIsland island p
       < expandedRadius island entityRadius * expandedRadius island entityRadius"

definition segmentMeets :: "Island \<Rightarrow> real \<Rightarrow> real \<times> real \<Rightarrow> real \<times> real \<Rightarrow> bool" where
  "segmentMeets island entityRadius prev next \<longleftrightarrow>
     (\<exists>s. 0 \<le> s \<and> s \<le> 1 \<and>
        distSqToIsland island
          (fst prev + (fst next - fst prev) * s, snd prev + (snd next - snd prev) * s)
        \<le> expandedRadius island entityRadius * expandedRadius island entityRadius)"

definition segmentLengthSq :: "real \<times> real \<Rightarrow> real \<times> real \<Rightarrow> real" where
  "segmentLengthSq prev next =
     (fst next - fst prev) * (fst next - fst prev) + (snd next - snd prev) * (snd next - snd prev)"

text \<open>
  The degenerate call: the endpoint is strictly inside, within \<open>10\<^sup>-\<^sup>6\<close> of the
  centre, and the entity did not move.
\<close>

definition atRestOnCentre :: "Island \<Rightarrow> real \<Rightarrow> real \<times> real \<Rightarrow> real \<times> real \<Rightarrow> bool" where
  "atRestOnCentre island entityRadius prev next \<longleftrightarrow>
     strictlyInside island entityRadius next
     \<and> sqrt (distSqToIsland island next) \<le> 1 / 10 ^ 6
     \<and> prev = next"

subsection \<open>Shared types (\<^verbatim>\<open>shared/types.ts\<close>)\<close>

datatype ShipClass = patrol_boat | destroyer | cruiser | battleship | submarine | carrier

record PlayerStats =
  healthBonus :: int
  speedBonus :: int
  damageBonus :: int
  reloadBonus :: int

text \<open>\<^verbatim>\<open>keyof PlayerStats\<close>, with the indexed read and the indexed increment.\<close>

datatype StatKey = HealthBonus | SpeedBonus | DamageBonus | ReloadBonus

fun getStat :: "PlayerStats \<Rightarrow> StatKey \<Rightarrow> int" where
  "getStat st HealthBonus = healthBonus st"
| "getStat st SpeedBonus = speedBonus st"
| "getStat st DamageBonus = damageBonus st"
| "getStat st ReloadBonus = reloadBonus st"

fun incStat :: "PlayerStats \<Rightarrow> StatKey \<Rightarrow> PlayerStats" where
  "incStat st HealthBonus = st\<lparr>healthBonus := healthBonus st + 1\<rparr>"
| "incStat st SpeedBonus = st\<lparr>speedBonus := speedBonus st + 1\<rparr>"
| "incStat st DamageBonus = st\<lparr>damageBonus := damageBonus st + 1\<rparr>"
| "incStat st ReloadBonus = st\<lparr>reloadBonus := reloadBonus st + 1\<rparr>"

definition DEFAULT_STATS :: PlayerStats where
  "DEFAULT_STATS = \<lparr>healthBonus = 0, speedBonus = 0, damageBonus = 0, reloadBonus = 0\<rparr>"

definition MAX_STAT_POINTS :: int where
  "MAX_STAT_POINTS = 7"

record Ship =
  ship_id :: string
  ship_x :: real
  ship_y :: real
  ship_rotation :: real
  ship_velocityX :: real
  ship_velocityY :: real
  health :: int
  maxHealth :: int
  level :: int
  xp :: int
  shipClass :: ShipClass
  kills :: int
  score :: int
  stats :: PlayerStats
  abilityActive :: bool
  abilityCooldown :: int
  isStealthed :: bool
  isShielded :: bool

datatype BulletType = cannon | machinegun | torpedo

record Bullet =
  bullet_id :: string
  bullet_ownerId :: string
  bullet_x :: real
  bullet_y :: real
  bullet_velocityX :: real
  bullet_velocityY :: real
  damage :: int
  bullet_lifetime :: real
  bullet_type :: BulletType
  ignoreTerrain :: bool

datatype NeutralType = buoy | cargo | lighthouse | tank

record NeutralObject =
  neutral_id :: string
  neutral_x :: real
  neutral_y :: real
  neutral_type :: NeutralType
  neutral_health :: int
  neutral_maxHealth :: int
  xpValue :: int
  neutral_rotation :: "real option"
  neutral_velocityX :: "real option"
  neutral_velocityY :: "real option"
  neutral_lastFireTime :: "int option"

record Drone =
  drone_id :: string
  drone_ownerId :: string
  drone_x :: real
  drone_y :: real
  drone_rotation :: real
  drone_health :: int
  drone_lifetime :: real
  targetId :: "string option"

record LeaderboardEntry =
  lb_id :: string
  lb_name :: string
  lb_score :: int
  lb_kills :: int
  lb_level :: int
  lb_shipClass :: ShipClass

record GameState =
  timestamp :: int
  gs_ships :: "Ship list"
  gs_bullets :: "Bullet list"
  gs_neutrals :: "NeutralObject list"
  gs_islands :: "Island list"
  gs_leaderboard :: "LeaderboardEntry list"
  gs_drones :: "Drone list"

record PlayerInput =
  input_x :: real
  input_y :: real
  input_rotation :: real
  thrust :: bool
  fire :: bool
  useAbility :: bool

definition SHIP_UPGRADE_PATHS :: "ShipClass \<Rightarrow> ShipClass list" where
  "SHIP_UPGRADE_PATHS c =
     (case c of
        patrol_boat \<Rightarrow> [destroyer, cruiser, battleship, submarine, carrier]
      | destroyer \<Rightarrow> []
      | cruiser \<Rightarrow> []
      | battleship \<Rightarrow> []
      | submarine \<Rightarrow> []
      | carrier \<Rightarrow> [])"

definition SHIP_UNLOCK_LEVELS :: "ShipClass \<Rightarrow> int" where
  "SHIP_UNLOCK_LEVELS c =
     (case c of
        patrol_boat \<Rightarrow> 1
      | destroyer \<Rightarrow> 2
      | cruiser \<Rightarrow> 4
      | battleship \<Rightarrow> 5
      | submarine \<Rightarrow> 6
      | carrier \<Rightarrow> 7)"

record ShipBaseStats =
  base_maxHealth :: int
  base_speed :: int
  base_turnRate :: real
  base_fireRate :: int
  base_damage :: int

definition SHIP_STATS :: "ShipClass \<Rightarrow> ShipBaseStats" where
  "SHIP_STATS c =
     (case c of
        patrol_boat \<Rightarrow> \<lparr>base_maxHealth = 100, base_speed = 300, base_turnRate = 5 / 100,
                         base_fireRate = 400, base_damage = 12\<rparr>
      | destroyer \<Rightarrow> \<lparr>base_maxHealth = 90, base_speed = 380, base_turnRate = 65 / 1000,
                       base_fireRate = 250, base_damage = 10\<rparr>
      | cruiser \<Rightarrow> \<lparr>base_maxHealth = 180, base_speed = 220, base_turnRate = 35 / 1000,
                     base_fireRate = 500, base_damage = 15\<rparr>
      | battleship \<Rightarrow> \<lparr>base_maxHealth = 160, base_speed = 160, base_turnRate = 25 / 1000,
                        base_fireRate = 800, base_damage = 35\<rparr>
      | submarine \<Rightarrow> \<lparr>base_maxHealth = 80, base_speed = 280, base_turnRate = 45 / 1000,
                       base_fireRate = 1500, base_damage = 55\<rparr>
      | carrier \<Rightarrow> \<lparr>base_maxHealth = 140, base_speed = 200, base_turnRate = 3 / 100,
                     base_fireRate = 600, base_damage = 8\<rparr>)"

definition XP_PER_LEVEL :: "int list" where
  "XP_PER_LEVEL = [0, 50, 150, 300, 500, 800, 1200, 1700, 2400, 3500]"

definition MAX_LEVEL :: int where
  "MAX_LEVEL = 10"

text \<open>The names the string-typed enums stand for (used where the code stores one in a string).\<close>

fun shipClassName :: "ShipClass \<Rightarrow> string" where
  "shipClassName patrol_boat = ''patrol_boat''"
| "shipClassName destroyer = ''destroyer''"
| "shipClassName cruiser = ''cruiser''"
| "shipClassName battleship = ''battleship''"
| "shipClassName submarine = ''submarine''"
| "shipClassName carrier = ''carrier''"

fun bulletTypeName :: "BulletType \<Rightarrow> string" where
  "bulletTypeName cannon = ''cannon''"
| "bulletTypeName machinegun = ''machinegun''"
| "bulletTypeName torpedo = ''torpedo''"

fun neutralTypeName :: "NeutralType \<Rightarrow> string" where
  "neutralTypeName buoy = ''buoy''"
| "neutralTypeName cargo = ''cargo''"
| "neutralTypeName lighthouse = ''lighthouse''"
| "neutralTypeName tank = ''tank''"

subsection \<open>The server's state\<close>

definition SHIP_RADIUS :: real where "SHIP_RADIUS = 25"
definition BULLET_RADIUS :: real where "BULLET_RADIUS = 6"
definition DRONE_RADIUS :: real where "DRONE_RADIUS = 12"
definition DRONE_DAMAGE :: int where "DRONE_DAMAGE = 5"
definition WORLD_WIDTH :: real where "WORLD_WIDTH = 3000"
definition WORLD_HEIGHT :: real where "WORLD_HEIGHT = 3000"
definition CARGO_SPEED :: real where "CARGO_SPEED = 60"
definition LIGHTHOUSE_DAMAGE :: int where "LIGHTHOUSE_DAMAGE = 15"
definition TANK_DAMAGE :: int where "TANK_DAMAGE = 20"

record Player =
  player_id :: string
  player_name :: string
  ship :: Ship
  lastInput :: PlayerInput
  spawnProtectionUntil :: int
  lastFireTime :: int
  upgradePoints :: int
  isDead :: bool
  deathTime :: int
  abilityActiveUntil :: int
  abilityCooldownUntil :: int

text \<open>
  \<^verbatim>\<open>localStorage\<close>: the progression record under \<^verbatim>\<open>navalwar_save\<close> and the
  leaderboard under \<^verbatim>\<open>navalwar_leaderboard\<close>, as the structured values the JSON text
  encodes. An entry's date is the timestamp its ISO string is printed from.
\<close>

record SavedState =
  saved_score :: int
  saved_level :: int
  saved_xp :: int
  saved_shipClass :: ShipClass
  saved_stats :: PlayerStats
  saved_upgradePoints :: int

record ScoreEntry =
  entry_name :: string
  entry_score :: int
  entry_date :: int

record LeaderboardData =
  lastGame :: "ScoreEntry option"
  highScores :: "ScoreEntry list"

text \<open>What \<^verbatim>\<open>this.emit(name, payload)\<close> sends, one constructor per event name.\<close>

datatype Event =
    PlayerIdEvent string
  | WorldInit "Island list"
  | DamageDealt real real int bool
  | XpGained real real int
  | LevelUp int int "ShipClass list"
  | PlayerStatsEvent PlayerStats int int
  | PlayerDied string string string
  | DeathTimer int
  | KillFeed string string string
  | Respawned real real
  | GameStateEvent GameState

text \<open>
  The fields of \<^verbatim>\<open>SinglePlayerServer\<close>. \<^verbatim>\<open>players\<close> is a \<^verbatim>\<open>Map\<close>, iterated in
  insertion order: an association list, read with \<^const>\<open>map_of\<close>. A \<^verbatim>\<open>Player\<close>
  object held in a local variable is its key in this list, so that every read sees the
  mutations made through any other reference to the same object. The events emitted so
  far and the two \<^verbatim>\<open>localStorage\<close> slots are part of the state, and so is the
  environment's randomness: \<open>randomValues w i\<close> is what the \<open>i\<close>-th call of
  \<^verbatim>\<open>Math.random()\<close> returns, \<open>randomCalls\<close> counts the calls made.
\<close>

record World =
  players :: "(string \<times> Player) list"
  bullets :: "Bullet list"
  neutrals :: "NeutralObject list"
  islands :: "Island list"
  drones :: "Drone list"
  droneIdCounter :: nat
  bulletIdCounter :: nat
  neutralIdCounter :: nat
  emitted :: "Event list"
  navalwar_save :: "SavedState option"
  navalwar_leaderboard :: "LeaderboardData option"
  randomValues :: "nat \<Rightarrow> real"
  randomCalls :: nat

definition localPlayerId :: string where
  "localPlayerId = ''local-player''"

definition emit :: "World \<Rightarrow> Event \<Rightarrow> World" where
  "emit w e = w\<lparr>emitted := emitted w @ [e]\<rparr>"

text \<open>Mutation of the player object stored under key \<open>k\<close>.\<close>

definition modifyPlayer :: "string \<Rightarrow> (Player \<Rightarrow> Player) \<Rightarrow> World \<Rightarrow> World" where
  "modifyPlayer k f w =
     w\<lparr>players := map (\<lambda>kp. if fst kp = k then (fst kp, f (snd kp)) else kp) (players w)\<rparr>"

text \<open>\<^verbatim>\<open>this.players.get(k)\<close>.\<close>

definition getPlayer :: "World \<Rightarrow> string \<Rightarrow> Player option" where
  "getPlayer w k = map_of (players w) k"

subsection \<open>Progression: XP, levels, stat upgrades\<close>

text \<open>\<^verbatim>\<open>XP_PER_LEVEL[level] || 9999\<close>: an index outside the table reads \<^verbatim>\<open>undefined\<close>.\<close>

definition getXPToNextLevel :: "int \<Rightarrow> int" where
  "getXPToNextLevel lvl =
     (if lvl \<ge> MAX_LEVEL then 999999
      else if 0 \<le> lvl \<and> lvl < int (length XP_PER_LEVEL) \<and> XP_PER_LEVEL ! nat lvl \<noteq> 0
           then XP_PER_LEVEL ! nat lvl
      else 9999)"

definition sendStats :: "World \<Rightarrow> Player \<Rightarrow> World" where
  "sendStats w player =
     emit w (PlayerStatsEvent (stats (ship player)) (upgradePoints player)
               (getXPToNextLevel (level (ship player))))"

definition savePlayerState :: "World \<Rightarrow> Player \<Rightarrow> World" where
  "savePlayerState w player =
     (if player_id player \<noteq> localPlayerId then w
      else w\<lparr>navalwar_save := Some
             \<lparr>saved_score = score (ship player),
              saved_level = level (ship player),
              saved_xp = xp (ship player),
              saved_shipClass = shipClass (ship player),
              saved_stats = stats (ship player),
              saved_upgradePoints = upgradePoints player\<rparr>\<rparr>)"

text \<open>
  \<^verbatim>\<open>awardXP(player, amount)\<close>. The level-up test is an \<^verbatim>\<open>if\<close>: it runs once per
  call.
\<close>

definition awardXP :: "World \<Rightarrow> string \<Rightarrow> int \<Rightarrow> World" where
  "awardXP w k amount =
     (case getPlayer w k of
        None \<Rightarrow> w
      | Some p0 \<Rightarrow>
          (let p1 = p0\<lparr>ship := (ship p0)\<lparr>xp := xp (ship p0) + amount,
                                        score := score (ship p0) + amount * 10\<rparr>\<rparr>;
               xpNeeded = getXPToNextLevel (level (ship p1))
           in if xp (ship p1) \<ge> xpNeeded \<and> level (ship p1) < MAX_LEVEL then
                (let p2 = p1\<lparr>ship := (ship p1)\<lparr>level := level (ship p1) + 1,
                                              xp := xp (ship p1) - xpNeeded,
                                              health := maxHealth (ship p1)\<rparr>,
                             upgradePoints := upgradePoints p1 + 1\<rparr>;
                     allPossible = SHIP_UPGRADE_PATHS (shipClass (ship p2));
                     availableShipClasses =
                       filter (\<lambda>c. level (ship p2) \<ge> SHIP_UNLOCK_LEVELS c) allPossible;
                     w1 = modifyPlayer k (\<lambda>_. p2) w;
                     w2 = emit w1 (LevelUp (level (ship p2)) (upgradePoints p2) availableShipClasses)
                 in savePlayerState (sendStats w2 p2) p2)
              else
                (let w1 = modifyPlayer k (\<lambda>_. p1) w
                 in savePlayerState (sendStats w1 p1) p1)))"

text \<open>\<^verbatim>\<open>Math.round\<close> rounds to the nearest integer, halves upwards.\<close>

definition jsRound :: "real \<Rightarrow> int" where
  "jsRound v = \<lfloor>v + 1 / 2\<rfloor>"

definition recalculateShipStats :: "Player \<Rightarrow> Player" where
  "recalculateShipStats player =
     (let base = SHIP_STATS (shipClass (ship player));
          oldMax = maxHealth (ship player);
          newMax = base_maxHealth base + healthBonus (stats (ship player)) * 10;
          s1 = (ship player)\<lparr>maxHealth := newMax\<rparr>
      in if oldMax > 0 then
           (let ratio = real_of_int (health s1) / real_of_int oldMax
            in player\<lparr>ship := s1\<lparr>health := jsRound (ratio * real_of_int newMax)\<rparr>\<rparr>)
         else player\<lparr>ship := s1\<rparr>)"

definition handleUpgradeStat :: "World \<Rightarrow> string \<Rightarrow> StatKey \<Rightarrow> World" where
  "handleUpgradeStat w playerId stat =
     (case getPlayer w playerId of
        None \<Rightarrow> w
      | Some player \<Rightarrow>
          if upgradePoints player \<le> 0 then w
          else if getStat (stats (ship player)) stat \<ge> MAX_STAT_POINTS then w
          else
            (let p1 = player\<lparr>ship := (ship player)\<lparr>stats := incStat (stats (ship player)) stat\<rparr>,
                             upgradePoints := upgradePoints player - 1\<rparr>;
                 p2 = recalculateShipStats p1;
                 w1 = modifyPlayer playerId (\<lambda>_. p2) w
             in savePlayerState (sendStats w1 p2) p2))"

subsection \<open>Death handling\<close>

text \<open>
  \<^verbatim>\<open>saveGameResult\<close>. The comparator \<^verbatim>\<open>b.score - a.score\<close> sorts by descending score,
  and the sort is stable.
\<close>

definition saveGameResult :: "World \<Rightarrow> int \<Rightarrow> Player \<Rightarrow> World" where
  "saveGameResult w now player =
     (let entry = \<lparr>entry_name = player_name player, entry_score = score (ship player),
                   entry_date = now\<rparr>;
          data = (case navalwar_leaderboard w of
                    None \<Rightarrow> \<lparr>lastGame = None, highScores = []\<rparr>
                  | Some saved \<Rightarrow> saved);
          pushed = highScores data @ [entry];
          sorted = sort_key (\<lambda>e. - entry_score e) pushed
      in w\<lparr>navalwar_leaderboard := Some \<lparr>lastGame = Some entry, highScores = take 10 sorted\<rparr>\<rparr>)"

text \<open>
  \<^verbatim>\<open>handlePlayerDeath(player, killerId, weaponType)\<close>; \<open>now\<close> is what \<^verbatim>\<open>Date.now()\<close>
  returns during the call.
\<close>

definition handlePlayerDeath :: "World \<Rightarrow> int \<Rightarrow> string \<Rightarrow> string \<Rightarrow> string \<Rightarrow> World" where
  "handlePlayerDeath w now k killerId weaponType =
     (case getPlayer w k of
        None \<Rightarrow> w
      | Some player \<Rightarrow>
          if isDead player then w
          else
            (let w1 = (if player_id player = localPlayerId
                       then (saveGameResult w now player)\<lparr>navalwar_save := None\<rparr>
                       else w);
                 w2 = modifyPlayer k
                        (\<lambda>p. p\<lparr>ship := (ship p)\<lparr>health := 0\<rparr>, isDead := True, deathTime := now\<rparr>) w1
             in case getPlayer w2 killerId of
                  Some killer \<Rightarrow>
                    (let killerName = player_name killer;
                         killerWeapon = shipClassName (shipClass (ship killer));
                         w3 = modifyPlayer killerId
                                (\<lambda>q. q\<lparr>ship := (ship q)\<lparr>kills := kills (ship q) + 1\<rparr>\<rparr>) w2;
                         w4 = modifyPlayer killerId
                                (\<lambda>q. q\<lparr>ship := (ship q)\<lparr>score := score (ship q)
                                                  + (100 + level (ship player) * 10)\<rparr>\<rparr>) w3;
                         w5 = awardXP w4 killerId (100 + level (ship player) * 20);
                         w6 = emit w5 (PlayerDied killerId (player_id player) killerName);
                         w7 = emit w6 (DeathTimer now)
                     in emit w7 (KillFeed killerName (player_name player) killerWeapon))
                | None \<Rightarrow>
                    (let killerNeutral = find (\<lambda>n. neutral_id n = killerId) (neutrals w2);
                         killerName = (case killerNeutral of
                                         None \<Rightarrow> ''Unknown''
                                       | Some n \<Rightarrow>
                                           if neutral_type n = tank then ''Island Tank''
                                           else if neutral_type n = lighthouse then ''Defense Tower''
                                           else ''Enemy'');
                         killerWeapon = (case killerNeutral of
                                           None \<Rightarrow> weaponType
                                         | Some n \<Rightarrow> neutralTypeName (neutral_type n));
                         w6 = emit w2 (PlayerDied killerId (player_id player) killerName);
                         w7 = emit w6 (DeathTimer now)
                     in emit w7 (KillFeed killerName (player_name player) killerWeapon))))"

subsection \<open>Construction and joining\<close>

text \<open>Decimal printing of a counter, for the template strings that build ids.\<close>

fun string_of_nat :: "nat \<Rightarrow> string" where
  "string_of_nat n =
     (if n < 10 then [''0123456789'' ! n]
      else string_of_nat (n div 10) @ [''0123456789'' ! (n mod 10)])"

declare string_of_nat.simps [simp del]

definition islandConfigs :: "(real \<times> real \<times> real) list" where
  "islandConfigs =
     [(500, 500, 100), (2500, 500, 120), (500, 2500, 110), (2500, 2500, 105),
      (1500, 1500, 150), (1000, 800, 75), (2000, 800, 85), (800, 1800, 80),
      (2200, 2000, 90), (1500, 700, 65), (1500, 2300, 70), (700, 1200, 60),
      (2300, 1200, 65)]"

text \<open>
  \<^verbatim>\<open>generateIslands\<close>, without the outline \<^verbatim>\<open>points\<close>: collision uses the bounding
  radius only.
\<close>

definition generateIslands :: "Island list" where
  "generateIslands =
     map (\<lambda>(index, (x, y, r)).
            \<lparr>island_id = ''island_'' @ string_of_nat index, island_x = x, island_y = y,
             radius = r, shape = irregular, points = None,
             seed = Some (12345 + int index * 777)\<rparr>)
         (zip [0..<length islandConfigs] islandConfigs)"

text \<open>The state the constructor leaves before \<^verbatim>\<open>start()\<close> spawns the first neutrals.\<close>

definition initialWorld :: "(nat \<Rightarrow> real) \<Rightarrow> World" where
  "initialWorld rnd =
     \<lparr>players = [], bullets = [], neutrals = [], islands = generateIslands, drones = [],
      droneIdCounter = 0, bulletIdCounter = 0, neutralIdCounter = 0, emitted = [],
      navalwar_save = None, navalwar_leaderboard = None,
      randomValues = rnd, randomCalls = 0\<rparr>"

definition nextRandom :: "World \<Rightarrow> real \<times> World" where
  "nextRandom w = (randomValues w (randomCalls w), w\<lparr>randomCalls := Suc (randomCalls w)\<rparr>)"

text \<open>\<^verbatim>\<open>players.set(k, player)\<close>: an existing key keeps its place, a new one goes last.\<close>

fun setEntry :: "string \<Rightarrow> Player \<Rightarrow> (string \<times> Player) list \<Rightarrow> (string \<times> Player) list" where
  "setEntry k v [] = [(k, v)]"
| "setEntry k v (kp # kps) = (if fst kp = k then (k, v) # kps else kp # setEntry k v kps)"

text \<open>\<^verbatim>\<open>state.level || 1\<close> and the like: a zero is replaced by the default.\<close>

definition orElseInt :: "int \<Rightarrow> int \<Rightarrow> int" where
  "orElseInt v d = (if v = 0 then d else v)"

definition loadPlayerState :: "World \<Rightarrow> Player \<Rightarrow> Player" where
  "loadPlayerState w player =
     (case navalwar_save w of
        None \<Rightarrow> player
      | Some state \<Rightarrow>
          (let p1 = player\<lparr>ship := (ship player)
                        \<lparr>score := orElseInt (saved_score state) 0,
                         level := orElseInt (saved_level state) 1,
                         xp := orElseInt (saved_xp state) 0,
                         shipClass := saved_shipClass state,
                         stats := saved_stats state\<rparr>,
                      upgradePoints := orElseInt (saved_upgradePoints state) 0\<rparr>;
               p2 = recalculateShipStats p1
           in p2\<lparr>ship := (ship p2)\<lparr>health := maxHealth (ship p2)\<rparr>\<rparr>))"

definition handleJoinGame :: "World \<Rightarrow> int \<Rightarrow> string \<Rightarrow> string \<Rightarrow> World" where
  "handleJoinGame w0 now playerId playerName =
     (let (r1, wa) = nextRandom w0;
          (r2, w) = nextRandom wa;
          spawnX = r1 * 2000 + 500;
          spawnY = r2 * 2000 + 500;
          baseStats = SHIP_STATS patrol_boat;
          player =
            \<lparr>player_id = playerId,
             player_name = (if playerName = [] then ''Player'' else playerName),
             ship = \<lparr>ship_id = playerId, ship_x = spawnX, ship_y = spawnY, ship_rotation = 0,
                     ship_velocityX = 0, ship_velocityY = 0,
                     health = base_maxHealth baseStats, maxHealth = base_maxHealth baseStats,
                     level = 1, xp = 0, shipClass = patrol_boat, kills = 0, score = 0,
                     stats = DEFAULT_STATS, abilityActive = False, abilityCooldown = 0,
                     isStealthed = False, isShielded = False\<rparr>,
             lastInput = \<lparr>input_x = spawnX, input_y = spawnY, input_rotation = 0,
                          thrust = False, fire = False, useAbility = False\<rparr>,
             spawnProtectionUntil = now + 3000,
             lastFireTime = 0, upgradePoints = 0, isDead = False, deathTime = 0,
             abilityActiveUntil = 0, abilityCooldownUntil = 0\<rparr>;
          loaded = loadPlayerState w player;
          w1 = w\<lparr>players := setEntry playerId loaded (players w)\<rparr>;
          w2 = emit w1 (PlayerIdEvent playerId);
          w3 = emit w2 (WorldInit (islands w2))
      in sendStats w3 loaded)"


subsection \<open>Bullets\<close>

definition spawnBullet :: "World \<Rightarrow> Player \<Rightarrow> World" where
  "spawnBullet w player =
     (let sts = SHIP_STATS (shipClass (ship player));
          angle = ship_rotation (ship player);
          speed = 600;
          spawnX = ship_x (ship player) + cos angle * 30;
          spawnY = ship_y (ship player) + sin angle * 30
      in w\<lparr>bullets := bullets w @
              [\<lparr>bullet_id = ''bullet-'' @ string_of_nat (bulletIdCounter w),
                bullet_ownerId = player_id player,
                bullet_x = spawnX,
                bullet_y = spawnY,
                bullet_velocityX = cos angle * speed,
                bullet_velocityY = sin angle * speed,
                damage = base_damage sts + damageBonus (stats (ship player)) * 2,
                bullet_lifetime = 2000,
                bullet_type = cannon,
                ignoreTerrain = True\<rparr>],
           bulletIdCounter := Suc (bulletIdCounter w)\<rparr>)"

text \<open>
  Phaser's \<^verbatim>\<open>Math.Angle.Between(x1, y1, x2, y2)\<close> is \<^verbatim>\<open>Math.atan2(y2 - y1, x2 - x1)\<close>
  and \<^verbatim>\<open>Math.Distance.Between\<close> is the Euclidean distance; \<^verbatim>\<open>Math.Clamp(v, lo, hi)\<close>
  is \<^verbatim>\<open>Math.max(lo, Math.min(hi, v))\<close>.
\<close>

definition atan2 :: "real \<Rightarrow> real \<Rightarrow> real" where
  "atan2 y x =
     (if 0 < x then arctan (y / x)
      else if x < 0 then (if 0 \<le> y then arctan (y / x) + pi else arctan (y / x) - pi)
      else if 0 < y then pi / 2
      else if y < 0 then - pi / 2
      else 0)"

definition angleBetween :: "real \<Rightarrow> real \<Rightarrow> real \<Rightarrow> real \<Rightarrow> real" where
  "angleBetween x1 y1 x2 y2 = atan2 (y2 - y1) (x2 - x1)"

definition distanceBetween :: "real \<Rightarrow> real \<Rightarrow> real \<Rightarrow> real \<Rightarrow> real" where
  "distanceBetween x1 y1 x2 y2 = sqrt ((x1 - x2) * (x1 - x2) + (y1 - y2) * (y1 - y2))"


definition spawnNeutralBullet :: "World \<Rightarrow> NeutralObject \<Rightarrow> Player \<Rightarrow> World" where
  "spawnNeutralBullet w source target =
     (let speed = 400;
          angle = angleBetween (neutral_x source) (neutral_y source)
                    (ship_x (ship target)) (ship_y (ship target));
          dmg = (if neutral_type source = lighthouse then LIGHTHOUSE_DAMAGE else TANK_DAMAGE);
          offset = (if neutral_type source = tank then 40 else 50)
      in w\<lparr>bullets := bullets w @
              [\<lparr>bullet_id = ''bullet-'' @ string_of_nat (bulletIdCounter w),
                bullet_ownerId = neutral_id source,
                bullet_x = neutral_x source + cos angle * offset,
                bullet_y = neutral_y source + sin angle * offset,
                bullet_velocityX = cos angle * speed,
                bullet_velocityY = sin angle * speed,
                damage = dmg,
                bullet_lifetime = 3000,
                bullet_type = cannon,
                ignoreTerrain = (neutral_type source = tank)\<rparr>],
           bulletIdCounter := Suc (bulletIdCounter w)\<rparr>)"

text \<open>
  \<^verbatim>\<open>updateBullets\<close>, one bullet: it is moved and aged, then removed when expired or
  out of bounds, and otherwise, unless it ignores terrain, removed at the first island
  whose expanded circle the step's segment hits or that contains the new position.
\<close>

datatype BulletFate = Flying Bullet | Expired | IslandImpact

definition moveBullet :: "real \<Rightarrow> Bullet \<Rightarrow> Bullet" where
  "moveBullet dt b =
     b\<lparr>bullet_x := bullet_x b + bullet_velocityX b * dt,
       bullet_y := bullet_y b + bullet_velocityY b * dt,
       bullet_lifetime := bullet_lifetime b - dt * 1000\<rparr>"

fun hitsIsland :: "real \<Rightarrow> Bullet \<Rightarrow> Island list \<Rightarrow> bool" where
  "hitsIsland dt b [] = False"
| "hitsIsland dt b (island # rest) =
     (let expanded = radius island + BULLET_RADIUS;
          hitT = getFirstSegmentCircleHitT
                   (bullet_x b - bullet_velocityX b * dt) (bullet_y b - bullet_velocityY b * dt)
                   (bullet_x b) (bullet_y b) (island_x island) (island_y island) expanded
      in if hitT \<noteq> None \<or> isPointInIsland (bullet_x b) (bullet_y b) island then True
         else hitsIsland dt b rest)"

definition bulletFate :: "real \<Rightarrow> Island list \<Rightarrow> Bullet \<Rightarrow> BulletFate" where
  "bulletFate dt isls b0 =
     (let b = moveBullet dt b0
      in if bullet_lifetime b \<le> 0 \<or> bullet_x b < 0 \<or> bullet_x b > WORLD_WIDTH
            \<or> bullet_y b < 0 \<or> bullet_y b > WORLD_HEIGHT
         then Expired
         else if \<not> ignoreTerrain b \<and> hitsIsland dt b isls then IslandImpact
         else Flying b)"

text \<open>
  The loop runs from the last index down and splices removed bullets out; a bullet's
  fate depends on no other bullet, so the array that remains is the survivors in order.
\<close>

fun updateBulletsFrom :: "real \<Rightarrow> Island list \<Rightarrow> Bullet list \<Rightarrow> Bullet list" where
  "updateBulletsFrom dt isls [] = []"
| "updateBulletsFrom dt isls (b # bs) =
     (let rest = updateBulletsFrom dt isls bs
      in case bulletFate dt isls b of
           Flying b' \<Rightarrow> b' # rest
         | Expired \<Rightarrow> rest
         | IslandImpact \<Rightarrow> rest)"

definition updateBullets :: "real \<Rightarrow> World \<Rightarrow> World" where
  "updateBullets dt w = w\<lparr>bullets := updateBulletsFrom dt (islands w) (bullets w)\<rparr>"

subsection \<open>Neutrals: cargo movement and turret fire\<close>







subsection \<open>Spawning neutrals\<close>

definition MAX_NEUTRALS :: nat where
  "MAX_NEUTRALS = 50"

text \<open>
  The position loop of \<^verbatim>\<open>spawnNeutral\<close>: up to 20 attempts, each drawing \<open>x\<close> and
  \<open>y\<close> and rejecting the point when it is closer than \<open>radius + 80\<close> to an island.
\<close>

function findSpawnPosition :: "bool \<Rightarrow> real \<Rightarrow> real \<Rightarrow> nat \<Rightarrow> World \<Rightarrow> bool \<times> real \<times> real \<times> World" where
  "findSpawnPosition valid x y attempts w =
     (if \<not> valid \<and> attempts < 20 then
        (let (r1, w1) = nextRandom w;
             x' = r1 * (WORLD_WIDTH - 200) + 100;
             (r2, w2) = nextRandom w1;
             y' = r2 * (WORLD_HEIGHT - 200) + 100;
             valid' = list_all
                        (\<lambda>isl. \<not> distanceBetween x' y' (island_x isl) (island_y isl) < radius isl + 80)
                        (islands w2)
         in findSpawnPosition valid' x' y' (Suc attempts) w2)
      else (valid, x, y, w))"
  by pat_completeness auto
termination
  by (relation "measure (\<lambda>(valid, x, y, attempts, w). 20 - attempts)") auto

declare findSpawnPosition.simps [simp del]

definition spawnNeutral :: "World \<Rightarrow> World" where
  "spawnNeutral w0 =
     (if length (neutrals w0) \<ge> MAX_NEUTRALS then w0
      else
        (let (rand, w1) = nextRandom w0;
             type = (if rand < 6 / 10 then buoy else if rand < 9 / 10 then cargo else lighthouse);
             hp = (if type = buoy then 25 else if type = cargo then 60 else 120);
             xpv = (if type = buoy then 8 else if type = cargo then 25 else 60);
             (valid, x, y, w2) = findSpawnPosition False 0 0 0 w1
         in if valid then
              (let (rotation, w3) = (if type = cargo
                                     then (let (r, w') = nextRandom w2 in (r * pi * 2, w'))
                                     else (0, w2));
                   velocityX = (if type = cargo then cos rotation * CARGO_SPEED else 0);
                   velocityY = (if type = cargo then sin rotation * CARGO_SPEED else 0)
               in w3\<lparr>neutrals := neutrals w3 @
                       [\<lparr>neutral_id = neutralTypeName type @ ''-'' @ string_of_nat (neutralIdCounter w3),
                         neutral_x = x, neutral_y = y, neutral_type = type,
                         neutral_health = hp, neutral_maxHealth = hp, xpValue = xpv,
                         neutral_rotation = Some rotation,
                         neutral_velocityX = Some velocityX,
                         neutral_velocityY = Some velocityY,
                         neutral_lastFireTime = None\<rparr>],
                     neutralIdCounter := Suc (neutralIdCounter w3)\<rparr>)
            else w2))"

subsection \<open>Collision resolution\<close>

text \<open>
  The grids hold references: a player is referred to by its key in \<^verbatim>\<open>players\<close>, a
  neutral and a drone by its index in the array, which no pass changes before the
  removals at the end. \<open>now\<close> is the reading of \<^verbatim>\<open>Date.now()\<close> during the pass.
\<close>

definition getNeutral :: "World \<Rightarrow> nat \<Rightarrow> NeutralObject option" where
  "getNeutral w i = (if i < length (neutrals w) then Some (neutrals w ! i) else None)"

definition modifyNeutral :: "nat \<Rightarrow> (NeutralObject \<Rightarrow> NeutralObject) \<Rightarrow> World \<Rightarrow> World" where
  "modifyNeutral i f w = w\<lparr>neutrals := (neutrals w)[i := f (neutrals w ! i)]\<rparr>"

definition getDrone :: "World \<Rightarrow> nat \<Rightarrow> Drone option" where
  "getDrone w i = (if i < length (drones w) then Some (drones w ! i) else None)"

definition modifyDrone :: "nat \<Rightarrow> (Drone \<Rightarrow> Drone) \<Rightarrow> World \<Rightarrow> World" where
  "modifyDrone i f w = w\<lparr>drones := (drones w)[i := f (drones w ! i)]\<rparr>"

fun getNeutralRadius :: "NeutralType \<Rightarrow> real" where
  "getNeutralRadius buoy = 15"
| "getNeutralRadius cargo = 30"
| "getNeutralRadius lighthouse = 25"
| "getNeutralRadius tank = 20"

text \<open>
  Bullet against ships, the candidates of one bullet. A shielded hit marks the bullet
  and goes on to the next candidate (\<^verbatim>\<open>continue\<close>); a damaging hit ends the scan
  (\<^verbatim>\<open>break\<close>).
\<close>

fun bulletShipScan :: "int \<Rightarrow> Bullet \<Rightarrow> string list \<Rightarrow> World \<times> string set \<Rightarrow> World \<times> string set" where
  "bulletShipScan now b [] st = st"
| "bulletShipScan now b (k # ks) st =
     (case getPlayer (fst st) k of
        None \<Rightarrow> bulletShipScan now b ks st
      | Some player \<Rightarrow>
          if bullet_ownerId b = player_id player then bulletShipScan now b ks st
          else if isDead player then bulletShipScan now b ks st
          else if isStealthed (ship player) then bulletShipScan now b ks st
          else if now < spawnProtectionUntil player then bulletShipScan now b ks st
          else
            (let hitDistance = SHIP_RADIUS + BULLET_RADIUS;
                 hitDistanceSq = hitDistance * hitDistance;
                 dx = bullet_x b - ship_x (ship player);
                 dy = bullet_y b - ship_y (ship player);
                 distanceSq = dx * dx + dy * dy
             in if distanceSq < hitDistanceSq then
                  (let removed = insert (bullet_id b) (snd st)
                   in if isShielded (ship player) then
                        bulletShipScan now b ks
                          (emit (fst st)
                             (DamageDealt (ship_x (ship player)) (ship_y (ship player)) 0 False),
                           removed)
                      else
                        (let w1 = modifyPlayer k
                                    (\<lambda>p. p\<lparr>ship := (ship p)\<lparr>health := health (ship p) - damage b\<rparr>\<rparr>)
                                    (fst st);
                             w2 = emit w1 (DamageDealt (ship_x (ship player)) (ship_y (ship player))
                                             (damage b) (damage b \<ge> 30));
                             w3 = (if health (ship player) - damage b \<le> 0
                                   then handlePlayerDeath w2 now k (bullet_ownerId b)
                                          (bulletTypeName (bullet_type b))
                                   else w2)
                         in (w3, removed)))
                else bulletShipScan now b ks st))"

fun bulletShipLoop ::
  "int \<Rightarrow> string SpatialHashGrid \<Rightarrow> Bullet list \<Rightarrow> World \<times> string set \<Rightarrow> World \<times> string set" where
  "bulletShipLoop now shipGrid [] st = st"
| "bulletShipLoop now shipGrid (b # bs) st =
     (if bullet_id b \<in> snd st then bulletShipLoop now shipGrid bs st
      else bulletShipLoop now shipGrid bs
             (bulletShipScan now b
                (queryInto shipGrid (bullet_x b) (bullet_y b) (SHIP_RADIUS + BULLET_RADIUS) [])
                st))"

definition checkBulletShipCollisions ::
  "int \<Rightarrow> string SpatialHashGrid \<Rightarrow> World \<times> string set \<Rightarrow> World \<times> string set" where
  "checkBulletShipCollisions now shipGrid st = bulletShipLoop now shipGrid (bullets (fst st)) st"

text \<open>
  Bullet against neutrals. The state is the world, \<^verbatim>\<open>bulletsToRemove\<close> and
  \<^verbatim>\<open>neutralsToRemove\<close>.
\<close>

fun bulletNeutralScan ::
  "Bullet \<Rightarrow> nat list \<Rightarrow> World \<times> string set \<times> string set \<Rightarrow> World \<times> string set \<times> string set" where
  "bulletNeutralScan b [] st = st"
| "bulletNeutralScan b (i # is) st =
     (case getNeutral (fst st) i of
        None \<Rightarrow> bulletNeutralScan b is st
      | Some neutral \<Rightarrow>
          (let neutralRadius = getNeutralRadius (neutral_type neutral)
           in if bullet_ownerId b = neutral_id neutral then bulletNeutralScan b is st
              else if getPlayer (fst st) (bullet_ownerId b) = None then bulletNeutralScan b is st
              else
                (let hitDistance = neutralRadius + BULLET_RADIUS;
                     hitDistanceSq = hitDistance * hitDistance;
                     dx = bullet_x b - neutral_x neutral;
                     dy = bullet_y b - neutral_y neutral;
                     distanceSq = dx * dx + dy * dy
                 in if distanceSq < hitDistanceSq then
                      (let w1 = modifyNeutral i
                                  (\<lambda>n. n\<lparr>neutral_health := neutral_health n - damage b\<rparr>) (fst st);
                           bulletsToRemove = insert (bullet_id b) (fst (snd st))
                       in if neutral_health neutral - damage b \<le> 0 then
                            (let neutralsToRemove = insert (neutral_id neutral) (snd (snd st));
                                 w2 = awardXP w1 (bullet_ownerId b) (xpValue neutral);
                                 w3 = emit w2 (XpGained (neutral_x neutral) (neutral_y neutral)
                                                 (xpValue neutral))
                             in (w3, bulletsToRemove, neutralsToRemove))
                          else (w1, bulletsToRemove, snd (snd st)))
                    else bulletNeutralScan b is st)))"

fun bulletNeutralLoop ::
  "nat SpatialHashGrid \<Rightarrow> Bullet list \<Rightarrow> World \<times> string set \<times> string set
     \<Rightarrow> World \<times> string set \<times> string set" where
  "bulletNeutralLoop neutralGrid [] st = st"
| "bulletNeutralLoop neutralGrid (b # bs) st =
     (if bullet_id b \<in> fst (snd st) then bulletNeutralLoop neutralGrid bs st
      else bulletNeutralLoop neutralGrid bs
             (bulletNeutralScan b
                (queryInto neutralGrid (bullet_x b) (bullet_y b) (BULLET_RADIUS + 30) [])
                st))"

definition checkBulletNeutralCollisions ::
  "nat SpatialHashGrid \<Rightarrow> World \<times> string set \<times> string set \<Rightarrow> World \<times> string set \<times> string set" where
  "checkBulletNeutralCollisions neutralGrid st =
     bulletNeutralLoop neutralGrid (bullets (fst st)) st"

text \<open>
  Ship against ship. \<^verbatim>\<open>playerIndex\<close> maps a player's id to its index in
  \<^verbatim>\<open>livingPlayers\<close>, a later entry overwriting an earlier one.
\<close>

fun buildPlayerIndex :: "World \<Rightarrow> (nat \<times> string) list \<Rightarrow> (string \<rightharpoonup> nat) \<Rightarrow> (string \<rightharpoonup> nat)" where
  "buildPlayerIndex w [] m = m"
| "buildPlayerIndex w (ik # rest) m =
     (case getPlayer w (snd ik) of
        None \<Rightarrow> buildPlayerIndex w rest m
      | Some p \<Rightarrow> buildPlayerIndex w rest (m(player_id p \<mapsto> fst ik)))"

definition collidePair :: "int \<Rightarrow> string \<Rightarrow> string \<Rightarrow> World \<Rightarrow> World" where
  "collidePair now k1 k2 w =
     (case (getPlayer w k1, getPlayer w k2) of
        (Some p1, Some p2) \<Rightarrow>
          (let hitDistance = SHIP_RADIUS * 2;
               hitDistanceSq = hitDistance * hitDistance;
               dx = ship_x (ship p2) - ship_x (ship p1);
               dy = ship_y (ship p2) - ship_y (ship p1);
               distanceSq = dx * dx + dy * dy
           in if distanceSq < hitDistanceSq \<and> distanceSq > 1 / 10 ^ 9 then
                (let distance = sqrt distanceSq;
                     overlap = (hitDistance - distance) / 2;
                     nx = dx / distance;
                     ny = dy / distance;
                     w1 = modifyPlayer k1
                            (\<lambda>p. p\<lparr>ship := (ship p)\<lparr>ship_x := ship_x (ship p) - nx * overlap,
                                                    ship_y := ship_y (ship p) - ny * overlap\<rparr>\<rparr>) w;
                     w2 = modifyPlayer k2
                            (\<lambda>p. p\<lparr>ship := (ship p)\<lparr>ship_x := ship_x (ship p) + nx * overlap,
                                                    ship_y := ship_y (ship p) + ny * overlap\<rparr>\<rparr>) w1;
                     w3 = modifyPlayer k1
                            (\<lambda>p. p\<lparr>ship := (ship p)\<lparr>health := health (ship p) - 1\<rparr>\<rparr>) w2;
                     w4 = modifyPlayer k2
                            (\<lambda>p. p\<lparr>ship := (ship p)\<lparr>health := health (ship p) - 1\<rparr>\<rparr>) w3;
                     w5 = (case getPlayer w4 k1 of
                             None \<Rightarrow> w4
                           | Some q1 \<Rightarrow>
                               if health (ship q1) \<le> 0 \<and> \<not> isDead q1
                               then handlePlayerDeath w4 now k1 (player_id p2) ''collision''
                               else w4)
                 in case getPlayer w5 k2 of
                      None \<Rightarrow> w5
                    | Some q2 \<Rightarrow>
                        if health (ship q2) \<le> 0 \<and> \<not> isDead q2
                        then handlePlayerDeath w5 now k2 (player_id p1) ''collision''
                        else w5)
              else w)
      | _ \<Rightarrow> w)"

fun shipShipScan :: "int \<Rightarrow> (string \<rightharpoonup> nat) \<Rightarrow> nat \<Rightarrow> string \<Rightarrow> string list \<Rightarrow> World \<Rightarrow> World" where
  "shipShipScan now playerIndex i k1 [] w = w"
| "shipShipScan now playerIndex i k1 (k2 # ks) w =
     (case getPlayer w k2 of
        None \<Rightarrow> shipShipScan now playerIndex i k1 ks w
      | Some p2 \<Rightarrow>
          (case playerIndex (player_id p2) of
             None \<Rightarrow> shipShipScan now playerIndex i k1 ks w
           | Some j \<Rightarrow>
               if j \<le> i then shipShipScan now playerIndex i k1 ks w
               else shipShipScan now playerIndex i k1 ks (collidePair now k1 k2 w)))"

fun shipShipLoop ::
  "int \<Rightarrow> string SpatialHashGrid \<Rightarrow> (string \<rightharpoonup> nat) \<Rightarrow> (nat \<times> string) list \<Rightarrow> World \<Rightarrow> World" where
  "shipShipLoop now shipGrid playerIndex [] w = w"
| "shipShipLoop now shipGrid playerIndex (ik # rest) w =
     (case getPlayer w (snd ik) of
        None \<Rightarrow> shipShipLoop now shipGrid playerIndex rest w
      | Some p1 \<Rightarrow>
          shipShipLoop now shipGrid playerIndex rest
            (shipShipScan now playerIndex (fst ik) (snd ik)
               (queryInto shipGrid (ship_x (ship p1)) (ship_y (ship p1)) (SHIP_RADIUS * 2) [])
               w))"

definition checkShipShipCollisions :: "int \<Rightarrow> string list \<Rightarrow> string SpatialHashGrid \<Rightarrow> World \<Rightarrow> World" where
  "checkShipShipCollisions now livingPlayers shipGrid w =
     (let indexed = zip [0..<length livingPlayers] livingPlayers;
          playerIndex = buildPlayerIndex w indexed Map.empty
      in shipShipLoop now shipGrid playerIndex indexed w)"

text \<open>Drones: against ships (the drone is pushed back, not removed), then against neutrals.\<close>

fun droneShipScan :: "int \<Rightarrow> nat \<Rightarrow> string list \<Rightarrow> World \<Rightarrow> World" where
  "droneShipScan now di [] w = w"
| "droneShipScan now di (k # ks) w =
     (case (getDrone w di, getPlayer w k) of
        (Some drone, Some player) \<Rightarrow>
          if player_id player = drone_ownerId drone \<or> isDead player then droneShipScan now di ks w
          else if isStealthed (ship player) then droneShipScan now di ks w
          else if now < spawnProtectionUntil player then droneShipScan now di ks w
          else
            (let shipHitDistance = DRONE_RADIUS + SHIP_RADIUS;
                 shipHitDistanceSq = shipHitDistance * shipHitDistance;
                 dx = drone_x drone - ship_x (ship player);
                 dy = drone_y drone - ship_y (ship player);
                 distanceSq = dx * dx + dy * dy
             in if distanceSq < shipHitDistanceSq \<and> distanceSq > 1 / 10 ^ 9 then
                  (let w3 = (if \<not> isShielded (ship player) then
                               (let w1 = modifyPlayer k
                                           (\<lambda>p. p\<lparr>ship := (ship p)
                                                    \<lparr>health := health (ship p) - DRONE_DAMAGE\<rparr>\<rparr>) w;
                                    w2 = emit w1 (DamageDealt (ship_x (ship player))
                                                    (ship_y (ship player)) DRONE_DAMAGE False)
                                in if health (ship player) - DRONE_DAMAGE \<le> 0
                                   then handlePlayerDeath w2 now k (drone_ownerId drone) ''drone''
                                   else w2)
                             else w);
                       distance = sqrt distanceSq;
                       w4 = modifyDrone di
                              (\<lambda>d. d\<lparr>drone_x := drone_x d + (dx / distance) * 30,
                                     drone_y := drone_y d + (dy / distance) * 30\<rparr>) w3
                   in droneShipScan now di ks w4)
                else droneShipScan now di ks w)
      | _ \<Rightarrow> droneShipScan now di ks w)"

fun droneNeutralScan :: "nat \<Rightarrow> nat list \<Rightarrow> World \<times> string set \<Rightarrow> World \<times> string set" where
  "droneNeutralScan di [] st = st"
| "droneNeutralScan di (i # is) st =
     (case (getDrone (fst st) di, getNeutral (fst st) i) of
        (Some drone, Some neutral) \<Rightarrow>
          if neutral_id neutral \<in> snd st then droneNeutralScan di is st
          else
            (let neutralRadius = getNeutralRadius (neutral_type neutral);
                 hitDistance = DRONE_RADIUS + neutralRadius;
                 hitDistanceSq = hitDistance * hitDistance;
                 dx = drone_x drone - neutral_x neutral;
                 dy = drone_y drone - neutral_y neutral;
                 distanceSq = dx * dx + dy * dy
             in if distanceSq < hitDistanceSq then
                  (let w1 = modifyNeutral i
                              (\<lambda>n. n\<lparr>neutral_health := neutral_health n - DRONE_DAMAGE\<rparr>) (fst st)
                   in if neutral_health neutral - DRONE_DAMAGE \<le> 0 then
                        (let w2 = awardXP w1 (drone_ownerId drone) (xpValue neutral);
                             w3 = emit w2 (XpGained (neutral_x neutral) (neutral_y neutral)
                                             (xpValue neutral))
                         in droneNeutralScan di is (w3, insert (neutral_id neutral) (snd st)))
                      else droneNeutralScan di is (w1, snd st))
                else droneNeutralScan di is st)
      | _ \<Rightarrow> droneNeutralScan di is st)"

definition droneStep ::
  "int \<Rightarrow> string SpatialHashGrid \<Rightarrow> nat SpatialHashGrid \<Rightarrow> nat \<Rightarrow> World \<times> string set
     \<Rightarrow> World \<times> string set" where
  "droneStep now shipGrid neutralGrid di st =
     (case getDrone (fst st) di of
        None \<Rightarrow> st
      | Some drone \<Rightarrow>
          if getPlayer (fst st) (drone_ownerId drone) = None then st
          else
            (let w1 = droneShipScan now di
                        (queryInto shipGrid (drone_x drone) (drone_y drone)
                           (DRONE_RADIUS + SHIP_RADIUS) [])
                        (fst st)
             in case getDrone w1 di of
                  None \<Rightarrow> (w1, snd st)
                | Some moved \<Rightarrow>
                    droneNeutralScan di
                      (queryInto neutralGrid (drone_x moved) (drone_y moved) (DRONE_RADIUS + 30) [])
                      (w1, snd st)))"

fun droneLoop ::
  "int \<Rightarrow> string SpatialHashGrid \<Rightarrow> nat SpatialHashGrid \<Rightarrow> nat list \<Rightarrow> World \<times> string set
     \<Rightarrow> World \<times> string set" where
  "droneLoop now shipGrid neutralGrid [] st = st"
| "droneLoop now shipGrid neutralGrid (di # rest) st =
     droneLoop now shipGrid neutralGrid rest (droneStep now shipGrid neutralGrid di st)"

definition checkDroneCollisions ::
  "int \<Rightarrow> string SpatialHashGrid \<Rightarrow> nat SpatialHashGrid \<Rightarrow> World \<times> string set
     \<Rightarrow> World \<times> string set" where
  "checkDroneCollisions now shipGrid neutralGrid st =
     droneLoop now shipGrid neutralGrid [0..<length (drones (fst st))] st"

text \<open>\<^verbatim>\<open>checkCollisions\<close>: the grids, the four passes, then the removals.\<close>

definition checkCollisions :: "int \<Rightarrow> World \<Rightarrow> World" where
  "checkCollisions now w =
     (let livingPlayers = map fst (filter (\<lambda>kp. \<not> isDead (snd kp)) (players w));
          shipGrid = insertAll (newGrid 140)
                       (map (\<lambda>kp. (ship_x (ship (snd kp)), ship_y (ship (snd kp)), fst kp))
                          (filter (\<lambda>kp. \<not> isDead (snd kp)) (players w)));
          neutralGrid = insertAll (newGrid 140)
                          (map (\<lambda>i. (neutral_x (neutrals w ! i), neutral_y (neutrals w ! i), i))
                             [0..<length (neutrals w)]);
          (w1, bulletsToRemove1) = checkBulletShipCollisions now shipGrid (w, {});
          (w2, bulletsToRemove, neutralsToRemove2) =
            checkBulletNeutralCollisions neutralGrid (w1, bulletsToRemove1, {});
          w3 = checkShipShipCollisions now livingPlayers shipGrid w2;
          (w4, neutralsToRemove) =
            checkDroneCollisions now shipGrid neutralGrid (w3, neutralsToRemove2);
          w5 = (if bulletsToRemove \<noteq> {}
                then w4\<lparr>bullets := filter (\<lambda>b. bullet_id b \<notin> bulletsToRemove) (bullets w4)\<rparr>
                else w4)
      in if neutralsToRemove \<noteq> {}
         then w5\<lparr>neutrals := filter (\<lambda>n. neutral_id n \<notin> neutralsToRemove) (neutrals w5)\<rparr>
         else w5)"

subsection \<open>The snapshot\<close>

definition getLeaderboard :: "World \<Rightarrow> LeaderboardEntry list" where
  "getLeaderboard w =
     take 10
       (sort_key (\<lambda>e. - lb_score e)
          (map (\<lambda>p. \<lparr>lb_id = player_id p, lb_name = player_name p, lb_score = score (ship p),
                      lb_kills = kills (ship p), lb_level = level (ship p),
                      lb_shipClass = shipClass (ship p)\<rparr>)
             (filter (\<lambda>p. \<not> isDead p) (map snd (players w)))))"

definition gameState :: "int \<Rightarrow> World \<Rightarrow> GameState" where
  "gameState now w =
     \<lparr>timestamp = now,
      gs_ships = map (\<lambda>kp. ship (snd kp)) (players w),
      gs_bullets = bullets w,
      gs_neutrals = neutrals w,
      gs_islands = islands w,
      gs_leaderboard = getLeaderboard w,
      gs_drones = drones w\<rparr>"


subsection \<open>Vocabulary of the verified properties\<close>


text \<open>Every stat bonus is at most the cap and the upgrade points are not negative.\<close>

definition statsWithinCap :: "Player \<Rightarrow> bool" where
  "statsWithinCap p \<longleftrightarrow>
     healthBonus (stats (ship p)) \<le> MAX_STAT_POINTS \<and> speedBonus (stats (ship p)) \<le> MAX_STAT_POINTS
     \<and> damageBonus (stats (ship p)) \<le> MAX_STAT_POINTS \<and> reloadBonus (stats (ship p)) \<le> MAX_STAT_POINTS
     \<and> 0 \<le> upgradePoints p"

text \<open>
  \<open>unharmed p p'\<close>: between \<open>p\<close> and \<open>p'\<close> no damage was subtracted; the health is
  what it was, or was reset to the unchanged maximum by a level-up.
\<close>

definition unharmed :: "Player \<Rightarrow> Player \<Rightarrow> bool" where
  "unharmed p p' \<longleftrightarrow>
     spawnProtectionUntil p' = spawnProtectionUntil p
     \<and> maxHealth (ship p') = maxHealth (ship p)
     \<and> (health (ship p') = health (ship p) \<or> health (ship p') = maxHealth (ship p))"

text \<open>What \<^verbatim>\<open>awardXP\<close> does to the player object itself.\<close>

definition xpAwarded :: "int \<Rightarrow> Player \<Rightarrow> Player" where
  "xpAwarded amount p =
     (if xp (ship p) + amount \<ge> getXPToNextLevel (level (ship p)) \<and> level (ship p) < MAX_LEVEL
      then p\<lparr>ship := (ship p)\<lparr>xp := xp (ship p) + amount - getXPToNextLevel (level (ship p)),
                                score := score (ship p) + amount * 10,
                                level := level (ship p) + 1,
                                health := maxHealth (ship p)\<rparr>,
               upgradePoints := upgradePoints p + 1\<rparr>
      else p\<lparr>ship := (ship p)\<lparr>xp := xp (ship p) + amount,
                                score := score (ship p) + amount * 10\<rparr>\<rparr>)"

text \<open>A fresh game joined at time 0, every \<^verbatim>\<open>Math.random()\<close> returning 0.\<close>

definition joinedWorld :: World where
  "joinedWorld = handleJoinGame (initialWorld (\<lambda>_. 0)) 0 localPlayerId ''Ann''"

text \<open>The joined player then killed at time 5000 by a lighthouse's shell.\<close>

definition deadWorld :: World where
  "deadWorld = handlePlayerDeath joinedWorld 5000 localPlayerId ''lighthouse-7'' ''cannon''"

text \<open>The player of \<open>joinedWorld\<close>, and a lighthouse west of the first island.\<close>

definition ann :: Player where
  "ann = \<lparr>player_id = localPlayerId, player_name = ''Ann'',
      ship = \<lparr>ship_id = localPlayerId, ship_x = 500, ship_y = 500, ship_rotation = 0,
              ship_velocityX = 0, ship_velocityY = 0, health = 100, maxHealth = 100,
              level = 1, xp = 0, shipClass = patrol_boat, kills = 0, score = 0,
              stats = DEFAULT_STATS, abilityActive = False, abilityCooldown = 0,
              isStealthed = False, isShielded = False\<rparr>,
      lastInput = \<lparr>input_x = 500, input_y = 500, input_rotation = 0,
                   thrust = False, fire = False, useAbility = False\<rparr>,
      spawnProtectionUntil = 3000, lastFireTime = 0, upgradePoints = 0, isDead = False,
      deathTime = 0, abilityActiveUntil = 0, abilityCooldownUntil = 0\<rparr>"


text \<open>The first entry of \<^verbatim>\<open>islandConfigs\<close> (its outline, used for rendering only, left out).\<close>

definition island_0 :: Island where
  "island_0 = \<lparr>island_id = ''island_0'', island_x = 500, island_y = 500, radius = 100,
     shape = irregular, points = None, seed = Some 12345\<rparr>"

subsection \<open>Scenario worlds\<close>

text \<open>
  Entities as the code creates them: a player as \<^verbatim>\<open>handleJoinGame\<close> does at time 0,
  a lighthouse and a buoy as \<^verbatim>\<open>spawnNeutral\<close> does, a turret shell in flight, a drone.
\<close>

definition playerAt :: "string \<Rightarrow> string \<Rightarrow> real \<Rightarrow> real \<Rightarrow> Player" where
  "playerAt pid name x y =
     \<lparr>player_id = pid, player_name = name,
      ship = \<lparr>ship_id = pid, ship_x = x, ship_y = y, ship_rotation = 0,
              ship_velocityX = 0, ship_velocityY = 0, health = 100, maxHealth = 100,
              level = 1, xp = 0, shipClass = patrol_boat, kills = 0, score = 0,
              stats = DEFAULT_STATS, abilityActive = False, abilityCooldown = 0,
              isStealthed = False, isShielded = False\<rparr>,
      lastInput = \<lparr>input_x = x, input_y = y, input_rotation = 0,
                   thrust = False, fire = False, useAbility = False\<rparr>,
      spawnProtectionUntil = 3000, lastFireTime = 0, upgradePoints = 0, isDead = False,
      deathTime = 0, abilityActiveUntil = 0, abilityCooldownUntil = 0\<rparr>"

definition lighthouseAt :: "string \<Rightarrow> real \<Rightarrow> real \<Rightarrow> NeutralObject" where
  "lighthouseAt nid x y =
     \<lparr>neutral_id = nid, neutral_x = x, neutral_y = y, neutral_type = lighthouse,
      neutral_health = 120, neutral_maxHealth = 120, xpValue = 60,
      neutral_rotation = Some 0, neutral_velocityX = Some 0, neutral_velocityY = Some 0,
      neutral_lastFireTime = None\<rparr>"

definition shellAt :: "string \<Rightarrow> string \<Rightarrow> real \<Rightarrow> real \<Rightarrow> int \<Rightarrow> Bullet" where
  "shellAt bid owner x y dmg =
     \<lparr>bullet_id = bid, bullet_ownerId = owner, bullet_x = x, bullet_y = y,
      bullet_velocityX = 400, bullet_velocityY = 0, damage = dmg, bullet_lifetime = 1000,
      bullet_type = cannon, ignoreTerrain = False\<rparr>"

definition buoyAt :: "string \<Rightarrow> real \<Rightarrow> real \<Rightarrow> NeutralObject" where
  "buoyAt nid x y =
     \<lparr>neutral_id = nid, neutral_x = x, neutral_y = y, neutral_type = buoy,
      neutral_health = 25, neutral_maxHealth = 25, xpValue = 8,
      neutral_rotation = Some 0, neutral_velocityX = Some 0, neutral_velocityY = Some 0,
      neutral_lastFireTime = None\<rparr>"

definition droneAt :: "string \<Rightarrow> string \<Rightarrow> real \<Rightarrow> real \<Rightarrow> Drone" where
  "droneAt did owner x y =
     \<lparr>drone_id = did, drone_ownerId = owner, drone_x = x, drone_y = y, drone_rotation = 0,
      drone_health = 30, drone_lifetime = 4000, targetId = None\<rparr>"



text \<open>
  Open water before the buoy is there: the next three \<^verbatim>\<open>Math.random()\<close> calls pick
  the type buoy and the point \<open>(1100, 1200)\<close>.
\<close>

definition openSea :: World where
  "openSea =
     \<lparr>players = [(localPlayerId, playerAt localPlayerId ''Ann'' 1070 1200)],
      bullets = [], neutrals = [], islands = generateIslands, drones = [],
      droneIdCounter = 0, bulletIdCounter = 0, neutralIdCounter = 5, emitted = [],
      navalwar_save = None, navalwar_leaderboard = None,
      randomValues = (\<lambda>i. [0, 0, 0, 5 / 14, 11 / 28] ! i), randomCalls = 2\<rparr>"

text \<open>
  A patrol boat that has fired two, and then three, bullets at a buoy right in front of
  its bow.
\<close>

definition buoyWorld :: World where
  "buoyWorld =
     \<lparr>players = [(localPlayerId, playerAt localPlayerId ''Ann'' 1070 1200)],
      bullets = [],
      neutrals = [buoyAt ''buoy-5'' 1100 1200],
      islands = generateIslands, drones = [],
      droneIdCounter = 0, bulletIdCounter = 0, neutralIdCounter = 6, emitted = [],
      navalwar_save = None, navalwar_leaderboard = None,
      randomValues = (\<lambda>_. 0), randomCalls = 2\<rparr>"

definition twoShots :: World where
  "twoShots = spawnBullet (spawnBullet buoyWorld (playerAt localPlayerId ''Ann'' 1070 1200))
                (playerAt localPlayerId ''Ann'' 1070 1200)"

definition threeShots :: World where
  "threeShots = spawnBullet twoShots (playerAt localPlayerId ''Ann'' 1070 1200)"


text \<open>The exact-distance test of the bullet-against-neutral scan.\<close>

definition hitsNeutral :: "Bullet \<Rightarrow> NeutralObject \<Rightarrow> bool" where
  "hitsNeutral b n \<longleftrightarrow>
     (bullet_x b - neutral_x n) * (bullet_x b - neutral_x n)
       + (bullet_y b - neutral_y n) * (bullet_y b - neutral_y n)
     < (getNeutralRadius (neutral_type n) + BULLET_RADIUS)
         * (getNeutralRadius (neutral_type n) + BULLET_RADIUS)"

text \<open>The player under key \<open>K\<close> is still there and \<open>unharmed\<close> since \<open>p\<close>.\<close>

definition keptUnharmed :: "string \<Rightarrow> Player \<Rightarrow> World \<Rightarrow> bool" where
  "keptUnharmed K p w \<longleftrightarrow> (case getPlayer w K of None \<Rightarrow> False | Some p' \<Rightarrow> unharmed p p')"

text \<open>
  A world with one registered ship \<open>k\<close> whose health is within \<open>[0, maxHealth]\<close>; neutrals
  whose health is at most the maximum and positive unless they are marked for removal;
  bullets with no negative damage.
\<close>

definition shipOk :: "Player \<Rightarrow> bool" where
  "shipOk p \<longleftrightarrow> 0 \<le> health (ship p) \<and> health (ship p) \<le> maxHealth (ship p)"

definition solo :: "string \<Rightarrow> World \<Rightarrow> bool" where
  "solo k w \<longleftrightarrow> (\<exists>p. players w = [(k, p)] \<and> player_id p = k \<and> shipOk p)"

definition neutralsOk :: "string set \<Rightarrow> World \<Rightarrow> bool" where
  "neutralsOk removed w \<longleftrightarrow>
     list_all (\<lambda>n. neutral_health n \<le> neutral_maxHealth n
                   \<and> (0 < neutral_health n \<or> neutral_id n \<in> removed)) (neutrals w)"

definition bulletsOk :: "World \<Rightarrow> bool" where
  "bulletsOk w \<longleftrightarrow> list_all (\<lambda>b. 0 \<le> damage b) (bullets w)"

section \<open>Verified properties\<close>

subsection \<open>The spatial hash grid returns a superset of the query square\<close>

lemma cellSize_grid_insert: "cellSize (grid_insert g x y v) = cellSize g"
  by (simp add: grid_insert_def Let_def split: option.split)

lemma cellSize_insertAll: "cellSize (insertAll g ps) = cellSize g"
  by (induction g ps rule: insertAll.induct) (simp_all add: cellSize_grid_insert)

lemma cellSize_newGrid_pos: "0 < cellSize (newGrid cs)"
  by (simp add: newGrid_def)

definition stored :: "'a SpatialHashGrid \<Rightarrow> int \<Rightarrow> 'a set" where
  "stored g k = (case buckets g k of None \<Rightarrow> {} | Some bucket \<Rightarrow> set bucket)"

lemma stored_grid_insert_same:
  "v \<in> stored (grid_insert g x y v) (key \<lfloor>x / cellSize g\<rfloor> \<lfloor>y / cellSize g\<rfloor>)"
  by (simp add: stored_def grid_insert_def Let_def split: option.split)

lemma stored_grid_insert_mono: "stored g k \<subseteq> stored (grid_insert g x y v) k"
  by (auto simp: stored_def grid_insert_def Let_def split: option.splits)

lemma stored_insertAll_mono: "stored g k \<subseteq> stored (insertAll g ps) k"
proof (induction g ps rule: insertAll.induct)
  case (1 g)
  show ?case by simp
next
  case (2 g x y v ps)
  have "stored g k \<subseteq> stored (grid_insert g x y v) k"
    by (rule stored_grid_insert_mono)
  with 2 show ?case by auto
qed

lemma stored_insertAll_member:
  "(x, y, v) \<in> set ps \<Longrightarrow>
   v \<in> stored (insertAll g ps) (key \<lfloor>x / cellSize g\<rfloor> \<lfloor>y / cellSize g\<rfloor>)"
proof (induction g ps rule: insertAll.induct)
  case (1 g)
  then show ?case by simp
next
  case (2 g x' y' v' ps)
  show ?case
  proof (cases "(x, y, v) = (x', y', v')")
    case True
    have "v \<in> stored (grid_insert g x y v) (key \<lfloor>x / cellSize g\<rfloor> \<lfloor>y / cellSize g\<rfloor>)"
      by (rule stored_grid_insert_same)
    with True show ?thesis
      using stored_insertAll_mono [of "grid_insert g x y v" _ ps] by auto
  next
    case False
    with 2 show ?thesis by (auto simp: cellSize_grid_insert)
  qed
qed

lemma set_foldl_pushCell:
  "set (foldl (pushCell g cy) acc cxs) = set acc \<union> (\<Union>cx\<in>set cxs. stored g (key cx cy))"
  by (induction cxs arbitrary: acc) (auto simp: pushCell_def stored_def split: option.splits)

lemma set_foldl_rows:
  "set (foldl (\<lambda>acc cy. foldl (pushCell g cy) acc cxs) acc cys) =
     set acc \<union> (\<Union>cy\<in>set cys. \<Union>cx\<in>set cxs. stored g (key cx cy))"
  by (induction cys arbitrary: acc) (auto simp: set_foldl_pushCell)

lemma set_queryInto:
  "set (queryInto g x y range' out) =
     (\<Union>cy\<in>{\<lfloor>(y - max 0 range') / cellSize g\<rfloor>..\<lfloor>(y + max 0 range') / cellSize g\<rfloor>}.
      \<Union>cx\<in>{\<lfloor>(x - max 0 range') / cellSize g\<rfloor>..\<lfloor>(x + max 0 range') / cellSize g\<rfloor>}.
        stored g (key cx cy))"
  by (simp add: queryInto_def Let_def set_foldl_rows)

lemma cell_in_range:
  fixes c :: real
  assumes "0 < c" and "\<bar>xi - x\<bar> \<le> range'"
  shows "\<lfloor>xi / c\<rfloor> \<in> {\<lfloor>(x - max 0 range') / c\<rfloor>..\<lfloor>(x + max 0 range') / c\<rfloor>}"
proof -
  from assms(2) have "x - max 0 range' \<le> xi" and "xi \<le> x + max 0 range'"
    by linarith+
  with assms(1) have "(x - max 0 range') / c \<le> xi / c" and "xi / c \<le> (x + max 0 range') / c"
    by (simp_all add: divide_right_mono)
  then show ?thesis
    by (simp add: floor_mono)
qed

lemma queryInto_contains:
  assumes "0 < cellSize g" and "(xi, yi, v) \<in> set ps"
    and "\<bar>xi - x\<bar> \<le> range'" and "\<bar>yi - y\<bar> \<le> range'"
  shows "v \<in> set (queryInto (insertAll g ps) x y range' out)"
proof -
  let ?c = "cellSize g"
  have "v \<in> stored (insertAll g ps) (key \<lfloor>xi / ?c\<rfloor> \<lfloor>yi / ?c\<rfloor>)"
    using assms(2) by (rule stored_insertAll_member)
  moreover have "\<lfloor>xi / ?c\<rfloor> \<in> {\<lfloor>(x - max 0 range') / ?c\<rfloor>..\<lfloor>(x + max 0 range') / ?c\<rfloor>}"
    using assms(1,3) by (rule cell_in_range)
  moreover have "\<lfloor>yi / ?c\<rfloor> \<in> {\<lfloor>(y - max 0 range') / ?c\<rfloor>..\<lfloor>(y + max 0 range') / ?c\<rfloor>}"
    using assms(1,4) by (rule cell_in_range)
  ultimately show ?thesis
    unfolding set_queryInto cellSize_insertAll by blast
qed

lemma euclid_in_square:
  fixes a b :: real
  assumes "sqrt (a * a + b * b) \<le> range'"
  shows "\<bar>a\<bar> \<le> range'" and "\<bar>b\<bar> \<le> range'"
proof -
  have "\<bar>a\<bar> \<le> sqrt (a * a + b * b)"
    by (rule real_le_rsqrt) (simp add: power2_eq_square)
  moreover have "\<bar>b\<bar> \<le> sqrt (a * a + b * b)"
    by (rule real_le_rsqrt) (simp add: power2_eq_square)
  ultimately show "\<bar>a\<bar> \<le> range'" and "\<bar>b\<bar> \<le> range'"
    using assms by linarith+
qed

text \<open>
  Claim C9. After any sequence of inserts into a fresh grid, \<^verbatim>\<open>queryInto\<close> discards
  what the caller's buffer held and returns every value that was inserted at a point
  of the axis-aligned square \<open>|x\<^sub>i - x| \<le> range\<close>, \<open>|y\<^sub>i - y| \<le> range\<close>; in
  particular every value within Euclidean distance \<open>range\<close> of the query point.
\<close>

theorem queryInto_superset:
  "queryInto (insertAll (newGrid cs) ps) x y range' out =
     queryInto (insertAll (newGrid cs) ps) x y range' []
   \<and> ((xi, yi, v) \<in> set ps \<and> \<bar>xi - x\<bar> \<le> range' \<and> \<bar>yi - y\<bar> \<le> range'
        \<longrightarrow> v \<in> set (queryInto (insertAll (newGrid cs) ps) x y range' out))
   \<and> ((xi, yi, v) \<in> set ps \<and> sqrt ((xi - x) * (xi - x) + (yi - y) * (yi - y)) \<le> range'
        \<longrightarrow> v \<in> set (queryInto (insertAll (newGrid cs) ps) x y range' out))"
proof (intro conjI impI)
  show "queryInto (insertAll (newGrid cs) ps) x y range' out =
        queryInto (insertAll (newGrid cs) ps) x y range' []"
    by (simp add: queryInto_def)
next
  assume "(xi, yi, v) \<in> set ps \<and> \<bar>xi - x\<bar> \<le> range' \<and> \<bar>yi - y\<bar> \<le> range'"
  then have "(xi, yi, v) \<in> set ps" and "\<bar>xi - x\<bar> \<le> range'" and "\<bar>yi - y\<bar> \<le> range'"
    by simp_all
  then show "v \<in> set (queryInto (insertAll (newGrid cs) ps) x y range' out)"
    by (rule queryInto_contains [OF cellSize_newGrid_pos])
next
  assume h: "(xi, yi, v) \<in> set ps \<and> sqrt ((xi - x) * (xi - x) + (yi - y) * (yi - y)) \<le> range'"
  then have "(xi, yi, v) \<in> set ps" and "\<bar>xi - x\<bar> \<le> range'" and "\<bar>yi - y\<bar> \<le> range'"
    using euclid_in_square by blast+
  then show "v \<in> set (queryInto (insertAll (newGrid cs) ps) x y range' out)"
    by (rule queryInto_contains [OF cellSize_newGrid_pos])
qed

theorem queryInto_superset_witness:
  "((10::real, 20::real, ''a'') \<in> set [(10, 20, ''a''), (500, 500, ''b'')]
      \<and> \<bar>10 - 15\<bar> \<le> (31::real) \<and> \<bar>20 - 25\<bar> \<le> (31::real))
   \<and> ''a'' \<in> set (queryInto (insertAll (newGrid 140) [(10, 20, ''a''), (500, 500, ''b'')])
                       15 25 31 [''z''])
   \<and> queryInto (insertAll (newGrid 140) [(10, 20, ''a''), (500, 500, ''b'')]) 15 25 31 [''z'']
       = [''a'']"
proof -
  have h: "(10::real, 20::real, ''a'') \<in> set [(10, 20, ''a''), (500, 500, ''b'')]
      \<and> \<bar>10 - 15\<bar> \<le> (31::real) \<and> \<bar>20 - 25\<bar> \<le> (31::real)"
    by simp
  have "''a'' \<in> set (queryInto (insertAll (newGrid 140) [(10, 20, ''a''), (500, 500, ''b'')])
                       15 25 31 [''z''])"
    using queryInto_superset [of 140 "[(10, 20, ''a''), (500, 500, ''b'')]" 15 25 31 "[''z'']"
        10 20 "''a''"] h by blast
  moreover have "queryInto (insertAll (newGrid 140) [(10, 20, ''a''), (500, 500, ''b'')])
      15 25 31 [''z''] = [''a'']"
    by (simp add: queryInto_def newGrid_def grid_insert_def key_def pushCell_def Let_def upto.simps)
  ultimately show ?thesis using h by blast
qed

subsection \<open>Swept clamp against an island\<close>

lemma unit_scale:
  fixes u v k n :: real
  assumes n: "n = sqrt (u * u + v * v)" and nz: "n \<noteq> 0"
  shows "(u / n * k) * (u / n * k) + (v / n * k) * (v / n * k) = k * k"
proof -
  have nn: "n * n = u * u + v * v"
    unfolding n by (simp add: sum_power2_ge_zero power2_eq_square [symmetric])
  have "(u / n) * (u / n) + (v / n) * (v / n) = (u * u + v * v) / (n * n)"
    by (simp add: add_divide_distrib)
  also have "\<dots> = 1"
    using nz by (simp add: nn [symmetric])
  finally have "(u / n) * (u / n) + (v / n) * (v / n) = 1" .
  then have "((u / n) * (u / n) + (v / n) * (v / n)) * (k * k) = k * k"
    by simp
  then show ?thesis
    by (simp add: algebra_simps)
qed

lemma quad_factor:
  fixes a b c x :: real
  assumes a: "0 < a" and d: "0 \<le> b * b - 4 * a * c"
  shows "a * x * x + b * x + c =
     a * (x - (- b - sqrt (b * b - 4 * a * c)) * (1 / (2 * a)))
       * (x - (- b + sqrt (b * b - 4 * a * c)) * (1 / (2 * a)))"
proof -
  define s where "s = sqrt (b * b - 4 * a * c)"
  have ss: "s * s = b * b - 4 * a * c"
    unfolding s_def using d by simp
  have "a * (x - (- b - s) * (1 / (2 * a))) * (x - (- b + s) * (1 / (2 * a)))
      = a * x * x + b * x + (b * b - s * s) / (4 * a)"
    using a by (simp add: field_simps)
  also have "(b * b - s * s) / (4 * a) = c"
    using a by (simp add: ss)
  finally show ?thesis
    unfolding s_def by simp
qed

lemma quad_root:
  fixes a b c t :: real
  assumes "0 < a" and "0 \<le> b * b - 4 * a * c"
    and "t = (- b - sqrt (b * b - 4 * a * c)) * (1 / (2 * a))
       \<or> t = (- b + sqrt (b * b - 4 * a * c)) * (1 / (2 * a))"
  shows "a * t * t + b * t + c = 0"
  using assms(3) by (auto simp: quad_factor [OF assms(1,2)])

lemma segment_point_quadratic:
  fixes ax ay bx by' cx cy r t :: real
  shows "(ax + (bx - ax) * t - cx) * (ax + (bx - ax) * t - cx)
       + (ay + (by' - ay) * t - cy) * (ay + (by' - ay) * t - cy) - r * r
     = ((bx - ax) * (bx - ax) + (by' - ay) * (by' - ay)) * t * t
       + (2 * ((ax - cx) * (bx - ax) + (ay - cy) * (by' - ay))) * t
       + (((ax - cx) * (ax - cx) + (ay - cy) * (ay - cy)) - r * r)"
  by (simp add: algebra_simps)

lemma hit_on_circle:
  assumes "getFirstSegmentCircleHitT ax ay bx by' cx cy r = Some t"
  shows "0 \<le> t \<and> t \<le> 1
     \<and> (ax + (bx - ax) * t - cx) * (ax + (bx - ax) * t - cx)
       + (ay + (by' - ay) * t - cy) * (ay + (by' - ay) * t - cy) = r * r"
proof -
  let ?a = "(bx - ax) * (bx - ax) + (by' - ay) * (by' - ay)"
  let ?b = "2 * ((ax - cx) * (bx - ax) + (ay - cy) * (by' - ay))"
  let ?c = "((ax - cx) * (ax - cx) + (ay - cy) * (ay - cy)) - r * r"
  from assms have a: "0 < ?a"
    by (auto simp: getFirstSegmentCircleHitT_def Let_def split: if_splits) 
  from assms have d: "0 \<le> ?b * ?b - 4 * ?a * ?c"
    by (simp add: getFirstSegmentCircleHitT_def Let_def split: if_splits)
  from assms have t: "t = (- ?b - sqrt (?b * ?b - 4 * ?a * ?c)) * (1 / (2 * ?a))
       \<or> t = (- ?b + sqrt (?b * ?b - 4 * ?a * ?c)) * (1 / (2 * ?a))"
    by (simp add: getFirstSegmentCircleHitT_def Let_def split: if_splits)
  from assms have r: "0 \<le> t \<and> t \<le> 1"
    by (auto simp: getFirstSegmentCircleHitT_def Let_def split: if_splits)
  have "?a * t * t + ?b * t + ?c = 0"
    using a d t by (rule quad_root)
  then have "(ax + (bx - ax) * t - cx) * (ax + (bx - ax) * t - cx)
       + (ay + (by' - ay) * t - cy) * (ay + (by' - ay) * t - cy) - r * r = 0"
    by (simp only: segment_point_quadratic)
  with r show ?thesis by simp
qed

lemma between_roots:
  fixes a t1 t2 x :: real
  assumes "0 < a" and "t1 \<le> t2" and "a * (x - t1) * (x - t2) \<le> 0"
  shows "t1 \<le> x \<and> x \<le> t2"
proof (rule ccontr)
  assume "\<not> (t1 \<le> x \<and> x \<le> t2)"
  then have "0 < (x - t1) * (x - t2)"
    using assms(2) by (auto intro: mult_neg_neg mult_pos_pos)
  then have "0 < a * ((x - t1) * (x - t2))"
    using assms(1) by (rule mult_pos_pos [rotated])
  with assms(3) show False
    by (simp add: mult.assoc)
qed

lemma outside_roots:
  fixes a t1 t2 x :: real
  assumes "0 < a" and "0 \<le> a * (x - t1) * (x - t2)"
  shows "\<not> (t1 < x \<and> x < t2)"
proof
  assume "t1 < x \<and> x < t2"
  then have "(x - t1) * (x - t2) < 0"
    by (auto intro: mult_pos_neg)
  then have "a * ((x - t1) * (x - t2)) < 0"
    using assms(1) by (rule mult_pos_neg [rotated])
  with assms(2) show False
    by (simp add: mult.assoc)
qed

lemma hit_complete:
  fixes ax ay bx by' cx cy r s :: real
  assumes len: "1 / 10 ^ 9 < (bx - ax) * (bx - ax) + (by' - ay) * (by' - ay)"
    and s: "0 \<le> s" "s \<le> 1"
    and inside: "(ax + (bx - ax) * s - cx) * (ax + (bx - ax) * s - cx)
       + (ay + (by' - ay) * s - cy) * (ay + (by' - ay) * s - cy) \<le> r * r"
    and endp: "r * r \<le> (bx - cx) * (bx - cx) + (by' - cy) * (by' - cy)"
  shows "getFirstSegmentCircleHitT ax ay bx by' cx cy r \<noteq> None"
proof -
  define a where "a = (bx - ax) * (bx - ax) + (by' - ay) * (by' - ay)"
  define b where "b = 2 * ((ax - cx) * (bx - ax) + (ay - cy) * (by' - ay))"
  define c where "c = ((ax - cx) * (ax - cx) + (ay - cy) * (ay - cy)) - r * r"
  define t1 where "t1 = (- b - sqrt (b * b - 4 * a * c)) * (1 / (2 * a))"
  define t2 where "t2 = (- b + sqrt (b * b - 4 * a * c)) * (1 / (2 * a))"
  have a: "0 < a" and a9: "\<not> a \<le> 1 / 10 ^ 9"
    using len unfolding a_def by simp_all
  have qs: "a * s * s + b * s + c \<le> 0"
    using inside unfolding a_def b_def c_def
    by (simp only: segment_point_quadratic [symmetric])
  have "(ax + (bx - ax) * 1 - cx) * (ax + (bx - ax) * 1 - cx)
       + (ay + (by' - ay) * 1 - cy) * (ay + (by' - ay) * 1 - cy) - r * r
     = a * 1 * 1 + b * 1 + c"
    unfolding a_def b_def c_def by (rule segment_point_quadratic)
  with endp have q1: "0 \<le> a * 1 * 1 + b * 1 + c"
    by simp
  have "b * b - 4 * a * c = (2 * a * s + b) * (2 * a * s + b) - 4 * a * (a * s * s + b * s + c)"
    by (simp add: algebra_simps)
  moreover have "a * (a * s * s + b * s + c) \<le> 0"
    using a qs by (simp add: mult_le_0_iff)
  moreover have "0 \<le> (2 * a * s + b) * (2 * a * s + b)"
    by simp
  ultimately have d: "0 \<le> b * b - 4 * a * c"
    by linarith
  have fac: "a * x * x + b * x + c = a * (x - t1) * (x - t2)" for x
    unfolding t1_def t2_def using a d by (rule quad_factor)
  have "- b - sqrt (b * b - 4 * a * c) \<le> - b + sqrt (b * b - 4 * a * c)"
    using d by simp
  then have le: "t1 \<le> t2"
    unfolding t1_def t2_def using a by (simp add: divide_right_mono)
  have bt: "t1 \<le> s \<and> s \<le> t2"
    using a le qs unfolding fac by (rule between_roots)
  have out: "\<not> (t1 < 1 \<and> 1 < t2)"
    using a q1 unfolding fac by (rule outside_roots)
  have "(0 \<le> t1 \<and> t1 \<le> 1) \<or> (0 \<le> t2 \<and> t2 \<le> 1)"
    using bt out s by linarith
  then show ?thesis
    using a9 d
    unfolding getFirstSegmentCircleHitT_def Let_def
      a_def [symmetric] b_def [symmetric] c_def [symmetric]
    by (auto simp: t1_def t2_def)
qed

lemma margin_not_inside:
  fixes e d :: real
  assumes "0 < e" and "d = (e + 1 / 100) * (e + 1 / 100)"
  shows "\<not> d < e * e"
proof -
  have "(e + 1 / 100) * (e + 1 / 100) = e * e + e / 50 + 1 / 10000"
    by (simp add: algebra_simps)
  with assms show ?thesis by simp
qed

lemma push_dist:
  fixes u v k :: real
  assumes "sqrt (u * u + v * v) \<noteq> 0"
  shows "distSqToIsland island
           (island_x island + (u / sqrt (u * u + v * v)) * k,
            island_y island + (v / sqrt (u * u + v * v)) * k) = k * k"
  unfolding distSqToIsland_def fst_conv snd_conv add_diff_cancel_left'
  by (rule unit_scale [OF refl assms])

lemma clamp_end_inside:
  assumes ins: "strictlyInside island entityRadius (nextX, nextY)"
    and nd: "\<not> atRestOnCentre island entityRadius (prevX, prevY) (nextX, nextY)"
  shows "distSqToIsland island
           (clampEntityOutsideIslandAlongSegment prevX prevY nextX nextY entityRadius island)
         = (expandedRadius island entityRadius + 1 / 100)
             * (expandedRadius island entityRadius + 1 / 100)"
proof (cases "sqrt ((nextX - island_x island) * (nextX - island_x island)
                 + (nextY - island_y island) * (nextY - island_y island)) > 1 / 10 ^ 6")
  case True
  let ?u = "nextX - island_x island"
  let ?v = "nextY - island_y island"
  have "(0::real) < 1 / 10 ^ 6" by simp
  with True have nz: "sqrt (?u * ?u + ?v * ?v) \<noteq> 0"
    by linarith
  have "clampEntityOutsideIslandAlongSegment prevX prevY nextX nextY entityRadius island
      = (island_x island + (?u / sqrt (?u * ?u + ?v * ?v)) * (expandedRadius island entityRadius + 1 / 100),
         island_y island + (?v / sqrt (?u * ?u + ?v * ?v)) * (expandedRadius island entityRadius + 1 / 100))"
    using ins True
    by (simp add: clampEntityOutsideIslandAlongSegment_def Let_def distSqToIsland_def
        strictlyInside_def expandedRadius_def)
  then show ?thesis
    by (simp only: push_dist [OF nz])
next
  case False
  let ?u = "nextX - prevX"
  let ?v = "nextY - prevY"
  from ins nd False have mv: "\<not> (prevX = nextX \<and> prevY = nextY)"
    by (auto simp: atRestOnCentre_def distSqToIsland_def)
  then have "?u * ?u + ?v * ?v \<noteq> 0"
    by (auto simp: add_nonneg_eq_0_iff)
  then have nz: "sqrt (?u * ?u + ?v * ?v) \<noteq> 0"
    by simp
  then have "orElse (sqrt (?u * ?u + ?v * ?v)) 1 = sqrt (?u * ?u + ?v * ?v)"
    by (simp add: orElse_def)
  then have "clampEntityOutsideIslandAlongSegment prevX prevY nextX nextY entityRadius island
      = (island_x island + (?u / sqrt (?u * ?u + ?v * ?v)) * (expandedRadius island entityRadius + 1 / 100),
         island_y island + (?v / sqrt (?u * ?u + ?v * ?v)) * (expandedRadius island entityRadius + 1 / 100))"
    using ins False
    by (simp add: clampEntityOutsideIslandAlongSegment_def Let_def distSqToIsland_def
        strictlyInside_def expandedRadius_def)
  then show ?thesis
    by (simp only: push_dist [OF nz])
qed

lemma clamp_at_rest:
  assumes "atRestOnCentre island entityRadius (prevX, prevY) (nextX, nextY)"
  shows "clampEntityOutsideIslandAlongSegment prevX prevY nextX nextY entityRadius island
         = (island_x island, island_y island)"
  using assms
  by (simp add: atRestOnCentre_def clampEntityOutsideIslandAlongSegment_def Let_def
      distSqToIsland_def strictlyInside_def expandedRadius_def orElse_def)

lemma clamp_hit:
  assumes pos: "0 < expandedRadius island entityRadius"
    and out: "\<not> strictlyInside island entityRadius (nextX, nextY)"
    and hit: "getFirstSegmentCircleHitT prevX prevY nextX nextY (island_x island) (island_y island)
                (radius island + entityRadius) = Some t"
  shows "distSqToIsland island
           (clampEntityOutsideIslandAlongSegment prevX prevY nextX nextY entityRadius island)
         = (expandedRadius island entityRadius + 1 / 100)
             * (expandedRadius island entityRadius + 1 / 100)"
proof -
  let ?e = "radius island + entityRadius"
  let ?nx = "prevX + (nextX - prevX) * t - island_x island"
  let ?ny = "prevY + (nextY - prevY) * t - island_y island"
  have on: "?nx * ?nx + ?ny * ?ny = ?e * ?e"
    using hit_on_circle [OF hit] by simp
  have e: "0 < ?e"
    using pos by (simp add: expandedRadius_def)
  have len: "sqrt (?nx * ?nx + ?ny * ?ny) = ?e"
    unfolding on using e by simp
  have nz: "sqrt (?nx * ?nx + ?ny * ?ny) \<noteq> 0"
    using len e by simp
  then have "orElse (sqrt (?nx * ?nx + ?ny * ?ny)) 1 = sqrt (?nx * ?nx + ?ny * ?ny)"
    by (simp add: orElse_def)
  then have "clampEntityOutsideIslandAlongSegment prevX prevY nextX nextY entityRadius island
      = (island_x island + (?nx / sqrt (?nx * ?nx + ?ny * ?ny)) * (expandedRadius island entityRadius + 1 / 100),
         island_y island + (?ny / sqrt (?nx * ?nx + ?ny * ?ny)) * (expandedRadius island entityRadius + 1 / 100))"
    using out hit
    by (simp add: clampEntityOutsideIslandAlongSegment_def Let_def distSqToIsland_def
        strictlyInside_def expandedRadius_def)
  then show ?thesis
    by (simp only: push_dist [OF nz])
qed

lemma clamp_no_hit:
  assumes out: "\<not> strictlyInside island entityRadius (nextX, nextY)"
    and hit: "getFirstSegmentCircleHitT prevX prevY nextX nextY (island_x island) (island_y island)
                (radius island + entityRadius) = None"
  shows "clampEntityOutsideIslandAlongSegment prevX prevY nextX nextY entityRadius island
         = (nextX, nextY)"
  using assms
  by (simp add: clampEntityOutsideIslandAlongSegment_def Let_def distSqToIsland_def
      strictlyInside_def expandedRadius_def)

lemma hit_iff_meets:
  assumes out: "\<not> strictlyInside island entityRadius (nextX, nextY)"
  shows "getFirstSegmentCircleHitT prevX prevY nextX nextY (island_x island) (island_y island)
                (radius island + entityRadius) \<noteq> None
     \<longleftrightarrow> 1 / 10 ^ 9 < segmentLengthSq (prevX, prevY) (nextX, nextY)
          \<and> segmentMeets island entityRadius (prevX, prevY) (nextX, nextY)"
proof
  assume "getFirstSegmentCircleHitT prevX prevY nextX nextY (island_x island) (island_y island)
                (radius island + entityRadius) \<noteq> None"
  then obtain t where hit: "getFirstSegmentCircleHitT prevX prevY nextX nextY
      (island_x island) (island_y island) (radius island + entityRadius) = Some t"
    by blast
  then have "1 / 10 ^ 9 < segmentLengthSq (prevX, prevY) (nextX, nextY)"
    by (auto simp: getFirstSegmentCircleHitT_def segmentLengthSq_def Let_def split: if_splits)
  moreover have "segmentMeets island entityRadius (prevX, prevY) (nextX, nextY)"
    unfolding segmentMeets_def distSqToIsland_def expandedRadius_def
    using hit_on_circle [OF hit] by (intro exI [of _ t]) simp
  ultimately show "1 / 10 ^ 9 < segmentLengthSq (prevX, prevY) (nextX, nextY)
          \<and> segmentMeets island entityRadius (prevX, prevY) (nextX, nextY)"
    by simp
next
  assume h: "1 / 10 ^ 9 < segmentLengthSq (prevX, prevY) (nextX, nextY)
          \<and> segmentMeets island entityRadius (prevX, prevY) (nextX, nextY)"
  then obtain s where s: "0 \<le> s" "s \<le> 1"
    and ins: "(prevX + (nextX - prevX) * s - island_x island)
                * (prevX + (nextX - prevX) * s - island_x island)
              + (prevY + (nextY - prevY) * s - island_y island)
                * (prevY + (nextY - prevY) * s - island_y island)
              \<le> (radius island + entityRadius) * (radius island + entityRadius)"
    by (auto simp: segmentMeets_def distSqToIsland_def expandedRadius_def)
  have len: "1 / 10 ^ 9 < (nextX - prevX) * (nextX - prevX) + (nextY - prevY) * (nextY - prevY)"
    using h by (simp add: segmentLengthSq_def)
  have endp: "(radius island + entityRadius) * (radius island + entityRadius)
      \<le> (nextX - island_x island) * (nextX - island_x island)
        + (nextY - island_y island) * (nextY - island_y island)"
    using out by (simp add: strictlyInside_def distSqToIsland_def expandedRadius_def)
  show "getFirstSegmentCircleHitT prevX prevY nextX nextY (island_x island) (island_y island)
                (radius island + entityRadius) \<noteq> None"
    using len s ins endp by (rule hit_complete)
qed

text \<open>
  Claim C5, as the code has it. For an island whose expanded radius
  \<open>radius + entityRadius\<close> is positive: unless the entity is at rest within
  \<open>10\<^sup>-\<^sup>6\<close> of the island's centre, the returned position is never strictly inside
  the expanded circle; when the endpoint is strictly inside, or the segment is longer than
  the hit test's cutoff (squared length above \<open>10\<^sup>-\<^sup>9\<close>) and meets the expanded
  disc, the result lies at distance exactly \<open>expanded + 0.01\<close> from the centre;
  otherwise the result is the endpoint. An entity at rest on the centre is returned to
  the centre itself, strictly inside the circle.
\<close>

theorem clamp_never_inside:
  assumes pos: "0 < expandedRadius island entityRadius"
  shows
    "(atRestOnCentre island entityRadius (prevX, prevY) (nextX, nextY) \<longrightarrow>
        clampEntityOutsideIslandAlongSegment prevX prevY nextX nextY entityRadius island
          = (island_x island, island_y island)
        \<and> strictlyInside island entityRadius
             (clampEntityOutsideIslandAlongSegment prevX prevY nextX nextY entityRadius island))
     \<and> (\<not> atRestOnCentre island entityRadius (prevX, prevY) (nextX, nextY) \<longrightarrow>
          \<not> strictlyInside island entityRadius
               (clampEntityOutsideIslandAlongSegment prevX prevY nextX nextY entityRadius island)
          \<and> (strictlyInside island entityRadius (nextX, nextY)
               \<or> (1 / 10 ^ 9 < segmentLengthSq (prevX, prevY) (nextX, nextY)
                   \<and> segmentMeets island entityRadius (prevX, prevY) (nextX, nextY))
              \<longrightarrow> distSqToIsland island
                     (clampEntityOutsideIslandAlongSegment prevX prevY nextX nextY entityRadius island)
                   = (expandedRadius island entityRadius + 1 / 100)
                       * (expandedRadius island entityRadius + 1 / 100))
          \<and> (\<not> strictlyInside island entityRadius (nextX, nextY)
               \<and> \<not> (1 / 10 ^ 9 < segmentLengthSq (prevX, prevY) (nextX, nextY)
                      \<and> segmentMeets island entityRadius (prevX, prevY) (nextX, nextY))
              \<longrightarrow> clampEntityOutsideIslandAlongSegment prevX prevY nextX nextY entityRadius island
                    = (nextX, nextY)))"
proof (intro conjI impI)
  assume rest: "atRestOnCentre island entityRadius (prevX, prevY) (nextX, nextY)"
  then show c: "clampEntityOutsideIslandAlongSegment prevX prevY nextX nextY entityRadius island
          = (island_x island, island_y island)"
    by (rule clamp_at_rest)
  show "strictlyInside island entityRadius
          (clampEntityOutsideIslandAlongSegment prevX prevY nextX nextY entityRadius island)"
    unfolding c using pos by (simp add: strictlyInside_def distSqToIsland_def)
next
  assume nd: "\<not> atRestOnCentre island entityRadius (prevX, prevY) (nextX, nextY)"
  show "\<not> strictlyInside island entityRadius
          (clampEntityOutsideIslandAlongSegment prevX prevY nextX nextY entityRadius island)"
  proof (cases "strictlyInside island entityRadius (nextX, nextY)")
    case True
    then show ?thesis
      unfolding strictlyInside_def [of _ _ "clampEntityOutsideIslandAlongSegment _ _ _ _ _ _"]
      using margin_not_inside [OF pos clamp_end_inside [OF True nd]] by simp
  next
    case False
    show ?thesis
    proof (cases "getFirstSegmentCircleHitT prevX prevY nextX nextY (island_x island)
                    (island_y island) (radius island + entityRadius)")
      case None
      with False show ?thesis by (simp add: clamp_no_hit)
    next
      case (Some t)
      show ?thesis
        unfolding strictlyInside_def [of _ _ "clampEntityOutsideIslandAlongSegment _ _ _ _ _ _"]
        using margin_not_inside [OF pos clamp_hit [OF pos False Some]] by simp
    qed
  qed
next
  assume nd: "\<not> atRestOnCentre island entityRadius (prevX, prevY) (nextX, nextY)"
    and h: "strictlyInside island entityRadius (nextX, nextY)
            \<or> (1 / 10 ^ 9 < segmentLengthSq (prevX, prevY) (nextX, nextY)
                \<and> segmentMeets island entityRadius (prevX, prevY) (nextX, nextY))"
  show "distSqToIsland island
          (clampEntityOutsideIslandAlongSegment prevX prevY nextX nextY entityRadius island)
        = (expandedRadius island entityRadius + 1 / 100)
            * (expandedRadius island entityRadius + 1 / 100)"
  proof (cases "strictlyInside island entityRadius (nextX, nextY)")
    case True
    then show ?thesis using nd by (rule clamp_end_inside)
  next
    case False
    with h have "getFirstSegmentCircleHitT prevX prevY nextX nextY (island_x island)
                    (island_y island) (radius island + entityRadius) \<noteq> None"
      using hit_iff_meets [of island entityRadius nextX nextY prevX prevY] by blast
    then obtain t where "getFirstSegmentCircleHitT prevX prevY nextX nextY (island_x island)
                    (island_y island) (radius island + entityRadius) = Some t"
      by blast
    with pos False show ?thesis by (rule clamp_hit)
  qed
next
  assume "\<not> strictlyInside island entityRadius (nextX, nextY)
          \<and> \<not> (1 / 10 ^ 9 < segmentLengthSq (prevX, prevY) (nextX, nextY)
                 \<and> segmentMeets island entityRadius (prevX, prevY) (nextX, nextY))"
  then have out: "\<not> strictlyInside island entityRadius (nextX, nextY)"
    and "getFirstSegmentCircleHitT prevX prevY nextX nextY (island_x island)
                    (island_y island) (radius island + entityRadius) = None"
    using hit_iff_meets [of island entityRadius nextX nextY prevX prevY] by auto
  then show "clampEntityOutsideIslandAlongSegment prevX prevY nextX nextY entityRadius island
          = (nextX, nextY)"
    by (rule clamp_no_hit)
qed

text \<open>
  Claim C5 as stated fails: a ship that rests on the centre of the first island
  (previous and next position both \<open>(500, 500)\<close>) stays there.
\<close>

theorem clamp_at_rest_counterexample:
  "strictlyInside island_0 25 (clampEntityOutsideIslandAlongSegment 500 500 500 500 25 island_0)"
  by (simp add: clampEntityOutsideIslandAlongSegment_def island_0_def strictlyInside_def
      distSqToIsland_def expandedRadius_def orElse_def Let_def)

theorem clamp_never_inside_witness:
  "0 < expandedRadius island_0 25
   \<and> (\<not> atRestOnCentre island_0 25 (300, 500) (700, 500)
      \<and> 1 / 10 ^ 9 < segmentLengthSq (300, 500) (700, 500)
      \<and> segmentMeets island_0 25 (300, 500) (700, 500)
      \<and> distSqToIsland island_0 (clampEntityOutsideIslandAlongSegment 300 500 700 500 25 island_0)
          = (125 + 1 / 100) * (125 + 1 / 100)
      \<and> \<not> strictlyInside island_0 25
            (clampEntityOutsideIslandAlongSegment 300 500 700 500 25 island_0))
   \<and> (atRestOnCentre island_0 25 (500, 500) (500, 500)
      \<and> clampEntityOutsideIslandAlongSegment 500 500 500 500 25 island_0 = (500, 500))
   \<and> (\<not> atRestOnCentre island_0 25 (0, 0) (10, 0)
      \<and> \<not> strictlyInside island_0 25 (10, 0)
      \<and> \<not> segmentMeets island_0 25 (0, 0) (10, 0)
      \<and> clampEntityOutsideIslandAlongSegment 0 0 10 0 25 island_0 = (10, 0))"
proof -
  have pos: "0 < expandedRadius island_0 25"
    by (simp add: expandedRadius_def island_0_def)
  have e: "expandedRadius island_0 25 = 125"
    by (simp add: expandedRadius_def island_0_def)
  have c: "island_x island_0 = 500" "island_y island_0 = 500"
    by (simp_all add: island_0_def)
  have a1: "\<not> atRestOnCentre island_0 25 (300, 500) (700, 500)"
    by (simp add: atRestOnCentre_def)
  have a2: "1 / 10 ^ 9 < segmentLengthSq (300, 500) (700, 500)"
    by (simp add: segmentLengthSq_def)
  have a3: "segmentMeets island_0 25 (300, 500) (700, 500)"
    unfolding segmentMeets_def
    by (rule exI [of _ "1 / 2"]) (simp add: distSqToIsland_def e c)
  have b1: "atRestOnCentre island_0 25 (500, 500) (500, 500)"
    by (simp add: atRestOnCentre_def strictlyInside_def distSqToIsland_def e c)
  have c1: "\<not> atRestOnCentre island_0 25 (0, 0) (10, 0)"
    by (simp add: atRestOnCentre_def)
  have c2: "\<not> strictlyInside island_0 25 (10, 0)"
    by (simp add: strictlyInside_def distSqToIsland_def e c)
  have c3: "\<not> segmentMeets island_0 25 (0, 0) (10, 0)"
  proof -
    have "\<not> (10 * s - 500) * (10 * s - 500) + 250000 \<le> 15625" for s :: real
    proof -
      have "0 \<le> (10 * s - 500) * (10 * s - 500)" by simp
      then show ?thesis by linarith
    qed
    then show ?thesis
      by (simp add: segmentMeets_def distSqToIsland_def e c)
  qed
  note t1 = clamp_never_inside [OF pos, of 300 500 700 500]
  note t2 = clamp_never_inside [OF pos, of 500 500 500 500]
  note t3 = clamp_never_inside [OF pos, of 0 0 10 0]
  from t1 a1 a2 a3 have
    "distSqToIsland island_0 (clampEntityOutsideIslandAlongSegment 300 500 700 500 25 island_0)
          = (125 + 1 / 100) * (125 + 1 / 100)"
    and "\<not> strictlyInside island_0 25
            (clampEntityOutsideIslandAlongSegment 300 500 700 500 25 island_0)"
    unfolding e by blast+
  moreover from t2 b1 have
    "clampEntityOutsideIslandAlongSegment 500 500 500 500 25 island_0 = (500, 500)"
    unfolding c by blast
  moreover from t3 c1 c2 c3 have
    "clampEntityOutsideIslandAlongSegment 0 0 10 0 25 island_0 = (10, 0)"
    by blast
  ultimately show ?thesis
    using pos a1 a2 a3 b1 c1 c2 c3 by blast
qed


subsection \<open>Frame lemmas for the state operations\<close>

lemma map_of_modify:
  "map_of (map (\<lambda>kp. if fst kp = k then (fst kp, f (snd kp)) else kp) ps) k' =
     (if k' = k then map_option f (map_of ps k) else map_of ps k')"
  by (induction ps) auto

lemma getPlayer_modifyPlayer:
  "getPlayer (modifyPlayer k f w) k' =
     (if k' = k then map_option f (getPlayer w k) else getPlayer w k')"
  by (simp add: getPlayer_def modifyPlayer_def map_of_modify)

lemma getPlayer_emit [simp]: "getPlayer (emit w e) k = getPlayer w k"
  by (simp add: getPlayer_def emit_def)

lemma getPlayer_sendStats [simp]: "getPlayer (sendStats w p) k = getPlayer w k"
  by (simp add: sendStats_def)

lemma getPlayer_savePlayerState [simp]: "getPlayer (savePlayerState w p) k = getPlayer w k"
  by (simp add: getPlayer_def savePlayerState_def)

lemma getPlayer_saveGameResult [simp]: "getPlayer (saveGameResult w now p) k = getPlayer w k"
  by (simp add: getPlayer_def saveGameResult_def Let_def)

lemma getPlayer_navalwar_save_update [simp]:
  "getPlayer (w\<lparr>navalwar_save := v\<rparr>) k = getPlayer w k"
  by (simp add: getPlayer_def)

lemma getPlayer_modifyNeutral [simp]: "getPlayer (modifyNeutral i f w) k = getPlayer w k"
  by (simp add: getPlayer_def modifyNeutral_def)

lemma getPlayer_modifyDrone [simp]: "getPlayer (modifyDrone i f w) k = getPlayer w k"
  by (simp add: getPlayer_def modifyDrone_def)

lemma getPlayer_awardXP:
  "getPlayer (awardXP w k amount) k' =
     (if k' = k then map_option (xpAwarded amount) (getPlayer w k) else getPlayer w k')"
  by (cases "getPlayer w k")
     (simp_all add: awardXP_def Let_def getPlayer_modifyPlayer xpAwarded_def)

lemma isDead_xpAwarded [simp]: "isDead (xpAwarded a p) = isDead p"
  by (simp add: xpAwarded_def)

subsection \<open>Awarding XP levels up at most once per call\<close>

lemma joinedWorld_player:
  "getPlayer joinedWorld localPlayerId = Some
     \<lparr>player_id = localPlayerId, player_name = ''Ann'',
      ship = \<lparr>ship_id = localPlayerId, ship_x = 500, ship_y = 500, ship_rotation = 0,
              ship_velocityX = 0, ship_velocityY = 0, health = 100, maxHealth = 100,
              level = 1, xp = 0, shipClass = patrol_boat, kills = 0, score = 0,
              stats = DEFAULT_STATS, abilityActive = False, abilityCooldown = 0,
              isStealthed = False, isShielded = False\<rparr>,
      lastInput = \<lparr>input_x = 500, input_y = 500, input_rotation = 0,
                   thrust = False, fire = False, useAbility = False\<rparr>,
      spawnProtectionUntil = 3000, lastFireTime = 0, upgradePoints = 0, isDead = False,
      deathTime = 0, abilityActiveUntil = 0, abilityCooldownUntil = 0\<rparr>"
  by (simp add: joinedWorld_def handleJoinGame_def initialWorld_def nextRandom_def Let_def
      loadPlayerState_def SHIP_STATS_def getPlayer_def emit_def sendStats_def)

lemma XP_thresholds:
  "getXPToNextLevel 1 = 50" "getXPToNextLevel 2 = 150" "MAX_LEVEL = 10"
  by (simp_all add: getXPToNextLevel_def XP_PER_LEVEL_def MAX_LEVEL_def)




subsection \<open>Death handling is idempotent\<close>

lemma handlePlayerDeath_marks_dead:
  assumes "getPlayer w k = Some p"
  shows "map_option isDead (getPlayer (handlePlayerDeath w now k killerId weaponType) k) = Some True"
proof (cases "isDead p")
  case True
  with assms show ?thesis by (simp add: handlePlayerDeath_def)
next
  case False
  with assms show ?thesis
    by (auto simp: handlePlayerDeath_def Let_def getPlayer_modifyPlayer getPlayer_awardXP
        option.map_comp comp_def split: option.splits)
qed

text \<open>
  Claim C6. For a player whose \<open>isDead\<close> is already true \<^verbatim>\<open>handlePlayerDeath\<close>
  returns the world as it was: players, events, both storage slots and all else. Hence
  death handling applied a second time, with whatever killer, weapon and time, changes
  nothing.
\<close>

theorem handlePlayerDeath_idempotent:
  "(getPlayer w k = Some p \<and> isDead p \<longrightarrow> handlePlayerDeath w now k killerId weaponType = w)
   \<and> handlePlayerDeath (handlePlayerDeath w now k killerId weaponType) now' k killerId' weaponType'
       = handlePlayerDeath w now k killerId weaponType"
proof (intro conjI impI)
  assume "getPlayer w k = Some p \<and> isDead p"
  then show "handlePlayerDeath w now k killerId weaponType = w"
    by (simp add: handlePlayerDeath_def)
next
  show "handlePlayerDeath (handlePlayerDeath w now k killerId weaponType) now' k killerId' weaponType'
       = handlePlayerDeath w now k killerId weaponType"
  proof (cases "getPlayer w k")
    case None
    then show ?thesis by (simp add: handlePlayerDeath_def)
  next
    case (Some p)
    from handlePlayerDeath_marks_dead [OF Some, of now killerId weaponType]
    obtain p' where "getPlayer (handlePlayerDeath w now k killerId weaponType) k = Some p'"
      and "isDead p'"
      by auto
    then show ?thesis
      by (simp add: handlePlayerDeath_def [of "handlePlayerDeath w now k killerId weaponType"])
  qed
qed

lemma joinedWorld_other:
  "k \<noteq> localPlayerId \<Longrightarrow> getPlayer joinedWorld k = None"
  by (simp add: joinedWorld_def handleJoinGame_def initialWorld_def nextRandom_def Let_def
      getPlayer_def emit_def sendStats_def)

theorem handlePlayerDeath_idempotent_witness:
  "map_option isDead (getPlayer deadWorld localPlayerId) = Some True
   \<and> handlePlayerDeath deadWorld 6000 localPlayerId ''player-2'' ''collision'' = deadWorld
   \<and> map_option (\<lambda>p. health (ship p)) (getPlayer deadWorld localPlayerId) = Some 0"
proof -
  have d: "map_option isDead (getPlayer deadWorld localPlayerId) = Some True"
    unfolding deadWorld_def by (rule handlePlayerDeath_marks_dead [OF joinedWorld_player])
  then obtain p where p: "getPlayer deadWorld localPlayerId = Some p \<and> isDead p"
    by auto
  have "handlePlayerDeath deadWorld 6000 localPlayerId ''player-2'' ''collision'' = deadWorld"
    using handlePlayerDeath_idempotent [of deadWorld localPlayerId p 6000 "''player-2''" "''collision''"] p
    by blast
  moreover have "getPlayer joinedWorld ''lighthouse-7'' = None"
    by (rule joinedWorld_other) (simp add: localPlayerId_def)
  then have "map_option (\<lambda>p. health (ship p)) (getPlayer deadWorld localPlayerId) = Some 0"
    by (simp add: deadWorld_def handlePlayerDeath_def Let_def getPlayer_modifyPlayer
        localPlayerId_def joinedWorld_player [unfolded localPlayerId_def])
  ultimately show ?thesis using d by simp
qed

subsection \<open>Stat upgrades\<close>

text \<open>
  Claim C8. \<^verbatim>\<open>handleUpgradeStat\<close> returns the world unchanged when the player does not
  exist, when its upgrade points are zero or less, or when the named stat has reached
  \<open>MAX_STAT_POINTS\<close>. Otherwise exactly that stat grows by one and no other, the upgrade
  points drop by one, and the maximum health is recomputed from the class and the health
  bonus. So stat bonuses within the cap and non-negative upgrade points stay so.
\<close>

theorem handleUpgradeStat_spec:
  "(getPlayer w playerId = None \<longrightarrow> handleUpgradeStat w playerId stat = w)
   \<and> (getPlayer w playerId = Some p
        \<and> (upgradePoints p \<le> 0 \<or> getStat (stats (ship p)) stat \<ge> MAX_STAT_POINTS)
      \<longrightarrow> handleUpgradeStat w playerId stat = w)
   \<and> (getPlayer w playerId = Some p
        \<and> 0 < upgradePoints p \<and> getStat (stats (ship p)) stat < MAX_STAT_POINTS
      \<longrightarrow> (\<exists>p'. getPlayer (handleUpgradeStat w playerId stat) playerId = Some p'
            \<and> getStat (stats (ship p')) stat = getStat (stats (ship p)) stat + 1
            \<and> (\<forall>other. other \<noteq> stat \<longrightarrow>
                  getStat (stats (ship p')) other = getStat (stats (ship p)) other)
            \<and> upgradePoints p' = upgradePoints p - 1
            \<and> maxHealth (ship p')
                = base_maxHealth (SHIP_STATS (shipClass (ship p))) + healthBonus (stats (ship p')) * 10
            \<and> getStat (stats (ship p')) stat \<le> MAX_STAT_POINTS
            \<and> 0 \<le> upgradePoints p'))
   \<and> ((\<forall>kp \<in> set (players w). statsWithinCap (snd kp))
      \<longrightarrow> (\<forall>kp \<in> set (players (handleUpgradeStat w playerId stat)). statsWithinCap (snd kp)))"
proof (intro conjI impI)
  assume "getPlayer w playerId = None"
  then show "handleUpgradeStat w playerId stat = w"
    by (simp add: handleUpgradeStat_def)
next
  assume "getPlayer w playerId = Some p
        \<and> (upgradePoints p \<le> 0 \<or> getStat (stats (ship p)) stat \<ge> MAX_STAT_POINTS)"
  then show "handleUpgradeStat w playerId stat = w"
    by (auto simp: handleUpgradeStat_def)
next
  assume h: "getPlayer w playerId = Some p
        \<and> 0 < upgradePoints p \<and> getStat (stats (ship p)) stat < MAX_STAT_POINTS"
  let ?p1 = "p\<lparr>ship := (ship p)\<lparr>stats := incStat (stats (ship p)) stat\<rparr>,
                upgradePoints := upgradePoints p - 1\<rparr>"
  have g: "getPlayer (handleUpgradeStat w playerId stat) playerId = Some (recalculateShipStats ?p1)"
    using h by (simp add: handleUpgradeStat_def Let_def getPlayer_modifyPlayer)
  have st: "stats (ship (recalculateShipStats q)) = stats (ship q)"
    and up: "upgradePoints (recalculateShipStats q) = upgradePoints q"
    and mh: "maxHealth (ship (recalculateShipStats q))
          = base_maxHealth (SHIP_STATS (shipClass (ship q))) + healthBonus (stats (ship q)) * 10" for q
    by (simp_all add: recalculateShipStats_def Let_def)
  show "\<exists>p'. getPlayer (handleUpgradeStat w playerId stat) playerId = Some p'
            \<and> getStat (stats (ship p')) stat = getStat (stats (ship p)) stat + 1
            \<and> (\<forall>other. other \<noteq> stat \<longrightarrow>
                  getStat (stats (ship p')) other = getStat (stats (ship p)) other)
            \<and> upgradePoints p' = upgradePoints p - 1
            \<and> maxHealth (ship p')
                = base_maxHealth (SHIP_STATS (shipClass (ship p))) + healthBonus (stats (ship p')) * 10
            \<and> getStat (stats (ship p')) stat \<le> MAX_STAT_POINTS
            \<and> 0 \<le> upgradePoints p'"
  proof (intro exI conjI allI impI)
    show "getPlayer (handleUpgradeStat w playerId stat) playerId = Some (recalculateShipStats ?p1)"
      by (rule g)
    show "getStat (stats (ship (recalculateShipStats ?p1))) stat = getStat (stats (ship p)) stat + 1"
      unfolding st by (cases stat) simp_all
    show "getStat (stats (ship (recalculateShipStats ?p1))) other = getStat (stats (ship p)) other"
      if "other \<noteq> stat" for other
      unfolding st using that by (cases stat; cases other) simp_all
    show "upgradePoints (recalculateShipStats ?p1) = upgradePoints p - 1"
      unfolding up by simp
    show "maxHealth (ship (recalculateShipStats ?p1))
        = base_maxHealth (SHIP_STATS (shipClass (ship p)))
          + healthBonus (stats (ship (recalculateShipStats ?p1))) * 10"
      unfolding mh st by simp
    show "getStat (stats (ship (recalculateShipStats ?p1))) stat \<le> MAX_STAT_POINTS"
      unfolding st using h by (cases stat) simp_all
    show "0 \<le> upgradePoints (recalculateShipStats ?p1)"
      unfolding up using h by simp
  qed
next
  assume inv: "\<forall>kp \<in> set (players w). statsWithinCap (snd kp)"
  show "\<forall>kp \<in> set (players (handleUpgradeStat w playerId stat)). statsWithinCap (snd kp)"
  proof (cases "getPlayer w playerId")
    case None
    with inv show ?thesis by (simp add: handleUpgradeStat_def)
  next
    case (Some p)
    show ?thesis
    proof (cases "upgradePoints p \<le> 0 \<or> getStat (stats (ship p)) stat \<ge> MAX_STAT_POINTS")
      case True
      with Some inv show ?thesis by (auto simp: handleUpgradeStat_def)
    next
      case False
      have "(playerId, p) \<in> set (players w)"
        using Some by (simp add: getPlayer_def map_of_SomeD)
      with inv have ip: "statsWithinCap p" by auto
      let ?p1 = "p\<lparr>ship := (ship p)\<lparr>stats := incStat (stats (ship p)) stat\<rparr>,
                    upgradePoints := upgradePoints p - 1\<rparr>"
      have "statsWithinCap (recalculateShipStats ?p1)"
        using ip False
        by (cases stat) (auto simp: statsWithinCap_def recalculateShipStats_def Let_def)
      with inv Some False show ?thesis
        by (auto simp: handleUpgradeStat_def Let_def modifyPlayer_def savePlayerState_def
            sendStats_def emit_def)
    qed
  qed
qed

theorem handleUpgradeStat_spec_witness:
  "(getPlayer joinedWorld ''nobody'' = None
      \<and> handleUpgradeStat joinedWorld ''nobody'' HealthBonus = joinedWorld)
   \<and> (map_option upgradePoints (getPlayer joinedWorld localPlayerId) = Some 0
      \<and> handleUpgradeStat joinedWorld localPlayerId HealthBonus = joinedWorld)
   \<and> (map_option (\<lambda>p. (upgradePoints p, healthBonus (stats (ship p))))
         (getPlayer (awardXP joinedWorld localPlayerId 60) localPlayerId) = Some (1, 0)
      \<and> map_option (\<lambda>p. (healthBonus (stats (ship p)), upgradePoints p, maxHealth (ship p),
                         health (ship p)))
          (getPlayer (handleUpgradeStat (awardXP joinedWorld localPlayerId 60) localPlayerId
                        HealthBonus) localPlayerId)
        = Some (1, 0, 110, 110))"
proof -
  let ?w1 = "awardXP joinedWorld localPlayerId 60"
  have n: "getPlayer joinedWorld ''nobody'' = None"
    by (rule joinedWorld_other) (simp add: localPlayerId_def)
  note t0 = handleUpgradeStat_spec [where w = joinedWorld and playerId = "''nobody''" and stat = HealthBonus]
  from t0 n have a: "handleUpgradeStat joinedWorld ''nobody'' HealthBonus = joinedWorld"
    by blast
  obtain p0 where p0: "getPlayer joinedWorld localPlayerId = Some p0" and u0: "upgradePoints p0 = 0"
    by (simp add: joinedWorld_player)
  note t1 = handleUpgradeStat_spec [where w = joinedWorld and playerId = localPlayerId and p = p0 and stat = HealthBonus]
  from t1 p0 u0 have b: "handleUpgradeStat joinedWorld localPlayerId HealthBonus = joinedWorld"
    by simp
  have g1: "getPlayer ?w1 localPlayerId = Some (xpAwarded 60 (the (getPlayer joinedWorld localPlayerId)))"
    by (simp add: getPlayer_awardXP joinedWorld_player)
  have c1: "map_option (\<lambda>p. (upgradePoints p, healthBonus (stats (ship p))))
         (getPlayer ?w1 localPlayerId) = Some (1, 0)"
    by (simp add: g1 joinedWorld_player xpAwarded_def XP_thresholds DEFAULT_STATS_def)
  obtain p1 where p1: "getPlayer ?w1 localPlayerId = Some p1"
    and u1: "upgradePoints p1 = 1" and h1: "healthBonus (stats (ship p1)) = 0"
    and c: "shipClass (ship p1) = patrol_boat"
    and hm: "health (ship p1) = 100" "maxHealth (ship p1) = 100"
    by (simp add: g1 joinedWorld_player xpAwarded_def XP_thresholds DEFAULT_STATS_def)
  note t2 = handleUpgradeStat_spec [where w = "?w1" and playerId = localPlayerId and p = p1 and stat = HealthBonus]
  from t2 p1 u1 h1 obtain p2 where
    p2: "getPlayer (handleUpgradeStat ?w1 localPlayerId HealthBonus) localPlayerId = Some p2"
    and s2: "healthBonus (stats (ship p2)) = 1" and u2: "upgradePoints p2 = 0"
    and m2: "maxHealth (ship p2) = base_maxHealth (SHIP_STATS (shipClass (ship p1))) + 1 * 10"
    by (auto simp: MAX_STAT_POINTS_def)
  have "getPlayer (handleUpgradeStat ?w1 localPlayerId HealthBonus) localPlayerId
      = Some (recalculateShipStats
                (p1\<lparr>ship := (ship p1)\<lparr>stats := incStat (stats (ship p1)) HealthBonus\<rparr>,
                     upgradePoints := upgradePoints p1 - 1\<rparr>))"
    using p1 u1 h1
    by (simp add: handleUpgradeStat_def Let_def getPlayer_modifyPlayer MAX_STAT_POINTS_def)
  with p2 have "health (ship p2) = 110"
    using hm c h1 by (auto simp: recalculateShipStats_def Let_def SHIP_STATS_def jsRound_def)
  with p2 s2 u2 m2 c have
    "map_option (\<lambda>p. (healthBonus (stats (ship p)), upgradePoints p, maxHealth (ship p),
                         health (ship p)))
          (getPlayer (handleUpgradeStat ?w1 localPlayerId HealthBonus) localPlayerId)
        = Some (1, 0, 110, 110)"
    by (simp add: SHIP_STATS_def)
  with n a p0 u0 b c1 show ?thesis
    by simp
qed


subsection \<open>Which bullets an island can destroy\<close>

lemma joinedWorld_ann: "getPlayer joinedWorld localPlayerId = Some ann"
  by (simp add: joinedWorld_player ann_def)












subsection \<open>Evaluating the scenarios\<close>


lemmas grid_eval = queryInto_def newGrid_def grid_insert_def key_def pushCell_def upto.simps

lemmas state_eval = getPlayer_def modifyPlayer_def emit_def getNeutral_def modifyNeutral_def
  getDrone_def modifyDrone_def sendStats_def savePlayerState_def saveGameResult_def
  awardXP_def handlePlayerDeath_def




lemmas collision_eval = checkCollisions_def checkBulletShipCollisions_def
  checkBulletNeutralCollisions_def checkShipShipCollisions_def checkDroneCollisions_def
  collidePair_def droneStep_def grid_eval state_eval Let_def localPlayerId_def
  SHIP_RADIUS_def BULLET_RADIUS_def DRONE_RADIUS_def DRONE_DAMAGE_def upt_conv_Cons

lemmas scenario_eval = playerAt_def lighthouseAt_def shellAt_def droneAt_def buoyAt_def
  spawnBullet_def SHIP_STATS_def DEFAULT_STATS_def XP_thresholds string_of_nat.simps

subsection \<open>Health in the snapshot\<close>



subsection \<open>One bullet, two targets\<close>


subsection \<open>Sinking a buoy\<close>

lemma getNeutral_modifyNeutral:
  "getNeutral (modifyNeutral i f w) j =
     (if j = i then map_option f (getNeutral w i) else getNeutral w j)"
  by (simp add: getNeutral_def modifyNeutral_def)

lemma neutrals_emit [simp]: "neutrals (emit w e) = neutrals w"
  by (simp add: emit_def)

lemma neutrals_modifyPlayer [simp]: "neutrals (modifyPlayer k f w) = neutrals w"
  by (simp add: modifyPlayer_def)

lemma neutrals_awardXP [simp]: "neutrals (awardXP w k a) = neutrals w"
  by (simp add: awardXP_def Let_def sendStats_def savePlayerState_def split: option.splits)

lemma getNeutral_emit [simp]: "getNeutral (emit w e) i = getNeutral w i"
  by (simp add: getNeutral_def)

lemma getNeutral_awardXP [simp]: "getNeutral (awardXP w k a) i = getNeutral w i"
  by (simp add: getNeutral_def)

lemma bulletNeutralScan_hit:
  assumes "getNeutral w i = Some n" and "bullet_ownerId b \<noteq> neutral_id n"
    and "getPlayer w (bullet_ownerId b) \<noteq> None" and "hitsNeutral b n"
  shows "bulletNeutralScan b (i # is) (w, rb, rn) =
     (if neutral_health n - damage b \<le> 0
      then (emit (awardXP (modifyNeutral i (\<lambda>n. n\<lparr>neutral_health := neutral_health n - damage b\<rparr>) w)
                    (bullet_ownerId b) (xpValue n))
              (XpGained (neutral_x n) (neutral_y n) (xpValue n)),
            insert (bullet_id b) rb, insert (neutral_id n) rn)
      else (modifyNeutral i (\<lambda>n. n\<lparr>neutral_health := neutral_health n - damage b\<rparr>) w,
            insert (bullet_id b) rb, rn))"
  using assms by (auto simp: hitsNeutral_def Let_def)

lemma neutrals_nextRandom [simp]: "neutrals (snd (nextRandom w)) = neutrals w"
  by (simp add: nextRandom_def)

lemma neutrals_findSpawnPosition:
  "neutrals (snd (snd (snd (findSpawnPosition valid x y attempts w)))) = neutrals w"
proof (induction "20 - attempts" arbitrary: valid x y attempts w)
  case 0
  then show ?case
    by (subst findSpawnPosition.simps) simp
next
  case (Suc n)
  show ?case
  proof (cases "\<not> valid \<and> attempts < 20")
    case True
    have "n = 20 - Suc attempts"
      using Suc.hyps(2) by simp
    note ih = Suc.hyps(1) [OF this]
    show ?thesis
      using True
      by (subst findSpawnPosition.simps) (simp add: Let_def nextRandom_def ih split: prod.splits)
  next
    case False
    then show ?thesis
      by (subst findSpawnPosition.simps) auto
  qed
qed

lemma spawnNeutral_adds:
  "neutrals (spawnNeutral w) = neutrals w
   \<or> (\<exists>m. neutrals (spawnNeutral w) = neutrals w @ [m]
          \<and> neutral_maxHealth m = neutral_health m
          \<and> (neutral_type m = buoy \<longrightarrow> neutral_health m = 25 \<and> xpValue m = 8)
          \<and> (neutral_type m = cargo \<longrightarrow> neutral_health m = 60 \<and> xpValue m = 25)
          \<and> (neutral_type m = lighthouse \<longrightarrow> neutral_health m = 120 \<and> xpValue m = 60)
          \<and> neutral_type m \<noteq> tank)"
proof -
  obtain rand w1 where r: "nextRandom w = (rand, w1)" by (cases "nextRandom w")
  obtain valid x y w2 where f: "findSpawnPosition False 0 0 0 w1 = (valid, x, y, w2)"
    by (cases "findSpawnPosition False 0 0 0 w1")
  have n1: "neutrals w1 = neutrals w"
    using neutrals_nextRandom [of w] r by simp
  have n2: "neutrals w2 = neutrals w1"
    using neutrals_findSpawnPosition [of False 0 0 0 w1] f by simp
  show ?thesis
    using r f n1 n2
    by (auto simp: spawnNeutral_def Let_def nextRandom_def split: prod.splits)
qed

lemma sqrt_less_numeral: "0 < b \<Longrightarrow> sqrt a < b \<longleftrightarrow> a < b * b"
  by (metis abs_of_pos real_sqrt_abs2 real_sqrt_less_iff)

lemma spawnNeutral_openSea:
  "neutrals (spawnNeutral openSea) = neutrals buoyWorld"
  by (simp add: spawnNeutral_def openSea_def Let_def nextRandom_def MAX_NEUTRALS_def
      findSpawnPosition.simps [of False] findSpawnPosition.simps [of True]
      WORLD_WIDTH_def WORLD_HEIGHT_def generateIslands_def islandConfigs_def upt_conv_Cons
      distanceBetween_def sqrt_less_numeral buoyAt_def buoyWorld_def string_of_nat.simps)

lemma three_hits_sink_buoy:
  "map damage (bullets threeShots) = [12, 12, 12]
   \<and> gs_neutrals (gameState 5000 (checkCollisions 5000 threeShots)) = []
   \<and> map_option (\<lambda>p. xp (ship p)) (getPlayer (checkCollisions 5000 threeShots) localPlayerId) = Some 8
   \<and> bullets (checkCollisions 5000 threeShots) = []"
  by (simp add: collision_eval threeShots_def twoShots_def buoyWorld_def scenario_eval gameState_def)

text \<open>
  Claim C4, as the code has it. A registered player's bullets of damage 12 hit a buoy
  of health 25 and xpValue 8 (each bullet's scan reaches the buoy and passes the exact
  distance test). After the second hit the buoy has health 1, is not scheduled for
  removal and the player is unchanged. The third hit schedules the buoy for removal, so
  that the removal pass drops it, and applies \<^verbatim>\<open>awardXP(player, 8)\<close> once: the xp grows
  by exactly 8 unless the award completes the level, in which case the level's
  threshold is subtracted.
\<close>

theorem buoy_needs_three_hits:
  assumes player: "getPlayer w k = Some p"
    and buoy: "getNeutral w i = Some n" "neutral_type n = buoy" "neutral_health n = 25"
      "xpValue n = 8" "neutral_id n \<noteq> k"
    and shots: "\<forall>b \<in> {b1, b2, b3}. bullet_ownerId b = k \<and> damage b = 12 \<and> hitsNeutral b n"
    and fresh: "neutral_id n \<notin> neutralsToRemove"
  shows
    "let st2 = bulletNeutralScan b2 (i # is2)
                 (bulletNeutralScan b1 (i # is1) (w, bulletsToRemove, neutralsToRemove));
         st3 = bulletNeutralScan b3 (i # is3) st2
     in map_option neutral_health (getNeutral (fst st2) i) = Some 1
        \<and> neutral_id n \<notin> snd (snd st2)
        \<and> getPlayer (fst st2) k = Some p
        \<and> neutral_id n \<in> snd (snd st3)
        \<and> (\<forall>m \<in> set (filter (\<lambda>m. neutral_id m \<notin> snd (snd st3)) (neutrals (fst st3))).
              neutral_id m \<noteq> neutral_id n)
        \<and> {bullet_id b1, bullet_id b2, bullet_id b3} \<subseteq> fst (snd st3)
        \<and> (\<exists>p3. getPlayer (fst st3) k = Some p3
              \<and> (if xp (ship p) + 8 \<ge> getXPToNextLevel (level (ship p)) \<and> level (ship p) < MAX_LEVEL
                  then xp (ship p3) = xp (ship p) + 8 - getXPToNextLevel (level (ship p))
                     \<and> level (ship p3) = level (ship p) + 1
                  else xp (ship p3) = xp (ship p) + 8 \<and> level (ship p3) = level (ship p)))"
proof -
  let ?hurt = "\<lambda>n. n\<lparr>neutral_health := neutral_health n - 12\<rparr>"
  let ?w1 = "modifyNeutral i ?hurt w"
  let ?w2 = "modifyNeutral i ?hurt ?w1"
  let ?w3 = "emit (awardXP (modifyNeutral i ?hurt ?w2) k 8)
               (XpGained (neutral_x n) (neutral_y n) 8)"
  from shots have o: "bullet_ownerId b1 = k" "bullet_ownerId b2 = k" "bullet_ownerId b3 = k"
    and d: "damage b1 = 12" "damage b2 = 12" "damage b3 = 12"
    and h: "hitsNeutral b1 n" "hitsNeutral b2 n" "hitsNeutral b3 n"
    by simp_all
  have n1: "getNeutral ?w1 i = Some (?hurt n)"
    using buoy(1) by (simp add: getNeutral_modifyNeutral)
  have n2: "getNeutral ?w2 i = Some (?hurt (?hurt n))"
    using buoy(1) by (simp add: getNeutral_modifyNeutral)
  have h1: "hitsNeutral b2 (?hurt n)" and h2: "hitsNeutral b3 (?hurt (?hurt n))"
    using h by (simp_all add: hitsNeutral_def)
  have s1: "bulletNeutralScan b1 (i # is1) (w, bulletsToRemove, neutralsToRemove)
      = (?w1, insert (bullet_id b1) bulletsToRemove, neutralsToRemove)"
    using bulletNeutralScan_hit [OF buoy(1), of b1 is1 bulletsToRemove neutralsToRemove]
      o d h buoy player by simp
  have s2: "bulletNeutralScan b2 (i # is2) (?w1, insert (bullet_id b1) bulletsToRemove, neutralsToRemove)
      = (?w2, insert (bullet_id b2) (insert (bullet_id b1) bulletsToRemove), neutralsToRemove)"
    using bulletNeutralScan_hit [OF n1, of b2 is2 "insert (bullet_id b1) bulletsToRemove"
        neutralsToRemove] o d h1 buoy player by simp
  have s3: "bulletNeutralScan b3 (i # is3)
        (?w2, insert (bullet_id b2) (insert (bullet_id b1) bulletsToRemove), neutralsToRemove)
      = (?w3, insert (bullet_id b3) (insert (bullet_id b2) (insert (bullet_id b1) bulletsToRemove)),
         insert (neutral_id n) neutralsToRemove)"
    using bulletNeutralScan_hit [OF n2, of b3 is3
        "insert (bullet_id b2) (insert (bullet_id b1) bulletsToRemove)" neutralsToRemove]
      o d h2 buoy player by simp
  have p3: "getPlayer ?w3 k = Some (xpAwarded 8 p)"
    using player by (simp add: getPlayer_awardXP)
  show ?thesis
    unfolding Let_def s1 s2 s3
    using n2 buoy fresh player p3
    by (auto simp: xpAwarded_def)
qed

text \<open>
  Claim C4 as stated fails: two bullets of damage 12 leave the buoy of health 25 with
  health 1, in the next snapshot, and the player's xp where it was.
\<close>

theorem two_hits_leave_buoy_counterexample:
  "map damage (bullets twoShots) = [12, 12]
   \<and> map (\<lambda>n. (neutral_id n, neutral_health n)) (neutrals (checkCollisions 5000 twoShots))
       = [(''buoy-5'', 1)]
   \<and> map (\<lambda>n. (neutral_id n, neutral_health n))
        (gs_neutrals (gameState 5000 (checkCollisions 5000 twoShots))) = [(''buoy-5'', 1)]
   \<and> map_option (\<lambda>p. xp (ship p)) (getPlayer (checkCollisions 5000 twoShots) localPlayerId) = Some 0
   \<and> bullets (checkCollisions 5000 twoShots) = []"
  by (simp add: collision_eval twoShots_def buoyWorld_def scenario_eval gameState_def)

theorem buoy_needs_three_hits_witness:
  "getPlayer threeShots localPlayerId = Some (playerAt localPlayerId ''Ann'' 1070 1200)
   \<and> getNeutral threeShots 0 = Some (buoyAt ''buoy-5'' 1100 1200)
   \<and> list_all (\<lambda>b. bullet_ownerId b = localPlayerId \<and> damage b = 12
                      \<and> hitsNeutral b (buoyAt ''buoy-5'' 1100 1200))
         [bullets threeShots ! 0, bullets threeShots ! 1, bullets threeShots ! 2]
   \<and> ''buoy-5'' \<in> snd (snd
         (bulletNeutralScan (bullets threeShots ! 2) [0]
            (bulletNeutralScan (bullets threeShots ! 1) [0]
               (bulletNeutralScan (bullets threeShots ! 0) [0] (threeShots, {}, {})))))
   \<and> map_option (\<lambda>p. xp (ship p))
         (getPlayer (fst
            (bulletNeutralScan (bullets threeShots ! 2) [0]
               (bulletNeutralScan (bullets threeShots ! 1) [0]
                  (bulletNeutralScan (bullets threeShots ! 0) [0] (threeShots, {}, {})))))
            localPlayerId) = Some 8
   \<and> gs_neutrals (gameState 5000 (checkCollisions 5000 threeShots)) = []
   \<and> map_option (\<lambda>p. xp (ship p)) (getPlayer (checkCollisions 5000 threeShots) localPlayerId)
       = Some 8
   \<and> neutrals (spawnNeutral openSea) = neutrals buoyWorld"
proof -
  let ?p = "playerAt localPlayerId ''Ann'' 1070 1200"
  let ?n = "buoyAt ''buoy-5'' 1100 1200"
  have pl: "getPlayer threeShots localPlayerId = Some ?p"
    by (simp add: threeShots_def twoShots_def buoyWorld_def spawnBullet_def Let_def getPlayer_def)
  have nb: "getNeutral threeShots 0 = Some ?n"
    by (simp add: threeShots_def twoShots_def buoyWorld_def spawnBullet_def Let_def getNeutral_def)
  have b: "neutral_type ?n = buoy" "neutral_health ?n = 25" "xpValue ?n = 8"
    "neutral_id ?n \<noteq> localPlayerId" "neutral_id ?n = ''buoy-5''"
    by (simp_all add: buoyAt_def localPlayerId_def)
  have sh: "\<forall>b \<in> {bullets threeShots ! 0, bullets threeShots ! 1, bullets threeShots ! 2}.
         bullet_ownerId b = localPlayerId \<and> damage b = 12 \<and> hitsNeutral b ?n"
    by (simp add: threeShots_def twoShots_def buoyWorld_def scenario_eval Let_def
        hitsNeutral_def BULLET_RADIUS_def)
  have fr: "neutral_id ?n \<notin> {}"
    by simp
  have xs: "xp (ship ?p) = 0" "level (ship ?p) = 1"
    by (simp_all add: playerAt_def)
  note t = buoy_needs_three_hits [OF pl nb b(1-4) sh fr, where ?is1.0 = "[]" and ?is2.0 = "[]"
      and ?is3.0 = "[]" and bulletsToRemove = "{}", unfolded Let_def b(5) xs]
  from t have c1: "''buoy-5'' \<in> snd (snd
         (bulletNeutralScan (bullets threeShots ! 2) [0]
            (bulletNeutralScan (bullets threeShots ! 1) [0]
               (bulletNeutralScan (bullets threeShots ! 0) [0] (threeShots, {}, {})))))"
    by blast
  from t have c2: "map_option (\<lambda>p. xp (ship p))
         (getPlayer (fst
            (bulletNeutralScan (bullets threeShots ! 2) [0]
               (bulletNeutralScan (bullets threeShots ! 1) [0]
                  (bulletNeutralScan (bullets threeShots ! 0) [0] (threeShots, {}, {})))))
            localPlayerId) = Some 8"
    by (auto simp: XP_thresholds)
  from pl nb sh c1 c2 three_hits_sink_buoy spawnNeutral_openSea show ?thesis
    by (simp add: list_all_iff)
qed

subsection \<open>Spawn protection\<close>



lemma keptUnharmed_emit [simp]: "keptUnharmed K p (emit w e) = keptUnharmed K p w"
  by (simp add: keptUnharmed_def)

lemma keptUnharmed_modifyNeutral [simp]:
  "keptUnharmed K p (modifyNeutral i f w) = keptUnharmed K p w"
  by (simp add: keptUnharmed_def)

lemma keptUnharmed_modifyDrone [simp]:
  "keptUnharmed K p (modifyDrone i f w) = keptUnharmed K p w"
  by (simp add: keptUnharmed_def)

lemma keptUnharmed_saveGameResult [simp]:
  "keptUnharmed K p (saveGameResult w now q) = keptUnharmed K p w"
  by (simp add: keptUnharmed_def)

lemma keptUnharmed_clear_save [simp]:
  "keptUnharmed K p (w\<lparr>navalwar_save := v\<rparr>) = keptUnharmed K p w"
  by (simp add: keptUnharmed_def)













lemma players_nextRandom [simp]: "players (snd (nextRandom w)) = players w"
  by (simp add: nextRandom_def)




lemma players_spawnNeutralBullet [simp]: "players (spawnNeutralBullet w n t) = players w"
  by (simp add: spawnNeutralBullet_def Let_def)





lemma spawnProtection_recalculate [simp]:
  "spawnProtectionUntil (recalculateShipStats q) = spawnProtectionUntil q"
  by (simp add: recalculateShipStats_def Let_def)





subsection \<open>A single ship: the collision pass keeps health in range\<close>

text \<open>What the passes leave alone.\<close>

lemma players_emit [simp]: "players (emit w e) = players w"
  by (simp add: emit_def)

lemma players_modifyNeutral [simp]: "players (modifyNeutral i f w) = players w"
  by (simp add: modifyNeutral_def)

lemma players_modifyDrone [simp]: "players (modifyDrone i f w) = players w"
  by (simp add: modifyDrone_def)

lemma players_saveGameResult [simp]: "players (saveGameResult w now p) = players w"
  by (simp add: saveGameResult_def Let_def)

lemma players_sendStats [simp]: "players (sendStats w p) = players w"
  by (simp add: sendStats_def)

lemma players_savePlayerState [simp]: "players (savePlayerState w p) = players w"
  by (simp add: savePlayerState_def)

lemma bullets_emit [simp]: "bullets (emit w e) = bullets w"
  by (simp add: emit_def)

lemma bullets_modifyPlayer [simp]: "bullets (modifyPlayer k f w) = bullets w"
  by (simp add: modifyPlayer_def)

lemma bullets_modifyNeutral [simp]: "bullets (modifyNeutral i f w) = bullets w"
  by (simp add: modifyNeutral_def)

lemma bullets_modifyDrone [simp]: "bullets (modifyDrone i f w) = bullets w"
  by (simp add: modifyDrone_def)

lemma bullets_awardXP [simp]: "bullets (awardXP w k a) = bullets w"
  by (simp add: awardXP_def Let_def sendStats_def savePlayerState_def split: option.splits)

lemma bullets_handlePlayerDeath [simp]: "bullets (handlePlayerDeath w now k kid wt) = bullets w"
  by (simp add: handlePlayerDeath_def Let_def saveGameResult_def split: option.splits)

lemma neutrals_modifyDrone [simp]: "neutrals (modifyDrone i f w) = neutrals w"
  by (simp add: modifyDrone_def)

lemma neutrals_handlePlayerDeath [simp]: "neutrals (handlePlayerDeath w now k kid wt) = neutrals w"
  by (simp add: handlePlayerDeath_def Let_def saveGameResult_def split: option.splits)

lemma drones_emit [simp]: "drones (emit w e) = drones w"
  by (simp add: emit_def)

lemma drones_modifyPlayer [simp]: "drones (modifyPlayer k f w) = drones w"
  by (simp add: modifyPlayer_def)

lemma drones_modifyNeutral [simp]: "drones (modifyNeutral i f w) = drones w"
  by (simp add: modifyNeutral_def)

lemma drones_awardXP [simp]: "drones (awardXP w k a) = drones w"
  by (simp add: awardXP_def Let_def sendStats_def savePlayerState_def split: option.splits)

lemma solo_getPlayer:
  "solo k w \<Longrightarrow> getPlayer w k' = Some q \<Longrightarrow> k' = k \<and> player_id q = k \<and> shipOk q \<and> players w = [(k, q)]"
  by (auto simp: solo_def getPlayer_def split: if_splits)

lemma solo_other: "solo k w \<Longrightarrow> k' \<noteq> k \<Longrightarrow> getPlayer w k' = None"
  by (auto simp: solo_def getPlayer_def)

lemma solo_cong: "players w' = players w \<Longrightarrow> solo k w' = solo k w"
  by (simp add: solo_def)

lemma shipOk_xpAwarded: "shipOk q \<Longrightarrow> shipOk (xpAwarded a q)"
  by (auto simp: shipOk_def xpAwarded_def)

lemma player_id_xpAwarded [simp]: "player_id (xpAwarded a q) = player_id q"
  by (simp add: xpAwarded_def)

lemma players_awardXP:
  "players (awardXP w k a) =
     (case getPlayer w k of
        None \<Rightarrow> players w
      | Some p0 \<Rightarrow> players (modifyPlayer k (\<lambda>_. xpAwarded a p0) w))"
  by (auto simp: awardXP_def Let_def xpAwarded_def modifyPlayer_def split: option.splits)

lemma solo_awardXP: "solo k w \<Longrightarrow> solo k (awardXP w k' a)"
proof (cases "getPlayer w k'")
  case None
  assume "solo k w"
  with None show ?thesis by (simp add: solo_def players_awardXP)
next
  case (Some q)
  assume s: "solo k w"
  from solo_getPlayer [OF s Some] show ?thesis
    using Some by (simp add: solo_def players_awardXP modifyPlayer_def shipOk_xpAwarded)
qed

text \<open>
  A living single player whose health may have gone below zero is put back to 0 by
  death handling.
\<close>

lemma death_restores:
  assumes "players w = [(k, q)]" and "player_id q = k" and "\<not> isDead q"
    and "0 \<le> maxHealth (ship q)"
  shows "solo k (handlePlayerDeath w now k killerId weaponType)"
proof -
  let ?dead = "q\<lparr>ship := (ship q)\<lparr>health := 0\<rparr>, isDead := True, deathTime := now\<rparr>"
  define w1 where "w1 = (if player_id q = localPlayerId
                       then (saveGameResult w now q)\<lparr>navalwar_save := None\<rparr> else w)"
  define w2 where "w2 = modifyPlayer k
      (\<lambda>p. p\<lparr>ship := (ship p)\<lparr>health := 0\<rparr>, isDead := True, deathTime := now\<rparr>) w1"
  have g: "getPlayer w k = Some q"
    using assms(1) by (simp add: getPlayer_def)
  have p1: "players w1 = [(k, q)]"
    using assms(1) by (simp add: w1_def)
  have p2: "players w2 = [(k, ?dead)]"
    using p1 by (simp add: w2_def modifyPlayer_def)
  have s2: "solo k w2"
    using p2 assms(2,4) by (simp add: solo_def shipOk_def)
  have s3: "solo k (awardXP (modifyPlayer killerId
                    (\<lambda>q. q\<lparr>ship := (ship q)\<lparr>score := score (ship q) + c\<rparr>\<rparr>)
                    (modifyPlayer killerId
                       (\<lambda>q. q\<lparr>ship := (ship q)\<lparr>kills := kills (ship q) + 1\<rparr>\<rparr>) w2))
           killerId a)" for c a
    by (rule solo_awardXP) (use p2 assms(2,4) in \<open>simp add: solo_def modifyPlayer_def shipOk_def\<close>)
  show ?thesis
    using g assms(3) s2 s3
    by (simp add: handlePlayerDeath_def Let_def w1_def [symmetric] w2_def [symmetric]
        solo_cong [of "emit _ _"] split: option.splits)
qed

lemma drones_handlePlayerDeath [simp]: "drones (handlePlayerDeath w now k kid wt) = drones w"
  by (simp add: handlePlayerDeath_def Let_def saveGameResult_def split: option.splits)

lemma bulletShipScan_frame:
  "neutrals (fst (bulletShipScan now b ks st)) = neutrals (fst st)
   \<and> bullets (fst (bulletShipScan now b ks st)) = bullets (fst st)
   \<and> drones (fst (bulletShipScan now b ks st)) = drones (fst st)"
  by (induction ks arbitrary: st) (auto simp: Let_def split: option.splits)

lemma bulletShipLoop_frame:
  "neutrals (fst (bulletShipLoop now g bs st)) = neutrals (fst st)
   \<and> bullets (fst (bulletShipLoop now g bs st)) = bullets (fst st)
   \<and> drones (fst (bulletShipLoop now g bs st)) = drones (fst st)"
  by (induction bs arbitrary: st) (simp_all add: bulletShipScan_frame)

lemma bulletShipScan_solo:
  assumes "0 \<le> damage b"
  shows "solo k (fst st) \<Longrightarrow> solo k (fst (bulletShipScan now b ks st))"
proof (induction ks arbitrary: st)
  case Nil
  then show ?case by simp
next
  case (Cons k2 ks)
  show ?case
  proof (cases "getPlayer (fst st) k2")
    case None
    with Cons show ?thesis by simp
  next
    case (Some player)
    from solo_getPlayer [OF Cons.prems Some]
    have k2: "k2 = k" and pid: "player_id player = k" and ok: "shipOk player"
      and pl: "players (fst st) = [(k, player)]"
      by simp_all
    let ?hurt = "\<lambda>p. p\<lparr>ship := (ship p)\<lparr>health := health (ship p) - damage b\<rparr>\<rparr>"
    have p1: "players (emit (modifyPlayer k ?hurt (fst st)) e) = [(k, ?hurt player)]" for e
      using pl by (simp add: modifyPlayer_def)
    have dead: "solo k (handlePlayerDeath (emit (modifyPlayer k ?hurt (fst st)) e) now k kid wt)"
      if "\<not> isDead player" for e kid wt
      by (rule death_restores [OF p1 [of e]]) (use that pid ok in \<open>auto simp: shipOk_def\<close>)
    have alive: "solo k (emit (modifyPlayer k ?hurt (fst st)) e)"
      if "\<not> health (ship player) - damage b \<le> 0" for e
      using p1 [of e] that pid ok assms by (auto simp: solo_def shipOk_def)
    have shield: "solo k (emit (fst st) e)" for e
      using Cons.prems by (simp add: solo_def)
    define skip where "skip \<longleftrightarrow> bullet_ownerId b = player_id player \<or> isDead player
        \<or> isStealthed (ship player) \<or> now < spawnProtectionUntil player"
    define hit where "hit \<longleftrightarrow>
        (bullet_x b - ship_x (ship player)) * (bullet_x b - ship_x (ship player))
          + (bullet_y b - ship_y (ship player)) * (bullet_y b - ship_y (ship player))
        < (SHIP_RADIUS + BULLET_RADIUS) * (SHIP_RADIUS + BULLET_RADIUS)"
    consider (pass) "skip \<or> \<not> hit" | (shielded) "\<not> skip" "hit" "isShielded (ship player)"
      | (lethal) "\<not> skip" "hit" "\<not> isShielded (ship player)" "health (ship player) - damage b \<le> 0"
      | (wound) "\<not> skip" "hit" "\<not> isShielded (ship player)" "\<not> health (ship player) - damage b \<le> 0"
      by blast
    then show ?thesis
    proof cases
      case pass
      then have "bulletShipScan now b (k2 # ks) st = bulletShipScan now b ks st"
        using Some by (auto simp: skip_def hit_def Let_def)
      with Cons show ?thesis by simp
    next
      case shielded
      then have "bulletShipScan now b (k2 # ks) st
          = bulletShipScan now b ks
              (emit (fst st) (DamageDealt (ship_x (ship player)) (ship_y (ship player)) 0 False),
               insert (bullet_id b) (snd st))"
        using Some by (simp add: skip_def hit_def Let_def)
      with Cons.IH [of "(emit (fst st) (DamageDealt (ship_x (ship player)) (ship_y (ship player)) 0 False),
               insert (bullet_id b) (snd st))"] shield
      show ?thesis by simp
    next
      case lethal
      then have "fst (bulletShipScan now b (k2 # ks) st)
          = handlePlayerDeath
              (emit (modifyPlayer k ?hurt (fst st))
                 (DamageDealt (ship_x (ship player)) (ship_y (ship player)) (damage b)
                    (damage b \<ge> 30)))
              now k (bullet_ownerId b) (bulletTypeName (bullet_type b))"
        using Some k2 by (simp add: skip_def hit_def Let_def)
      with dead lethal(1) show ?thesis by (simp add: skip_def)
    next
      case wound
      then have "fst (bulletShipScan now b (k2 # ks) st)
          = emit (modifyPlayer k ?hurt (fst st))
              (DamageDealt (ship_x (ship player)) (ship_y (ship player)) (damage b)
                 (damage b \<ge> 30))"
        using Some k2 by (simp add: skip_def hit_def Let_def)
      with alive wound(4) show ?thesis by simp
    qed
  qed
qed

lemma bulletShipLoop_solo:
  "list_all (\<lambda>b. 0 \<le> damage b) bs \<Longrightarrow> solo k (fst st)
   \<Longrightarrow> solo k (fst (bulletShipLoop now g bs st))"
  by (induction bs arbitrary: st) (simp_all add: bulletShipScan_solo)


text \<open>Bullets against neutrals.\<close>

lemma neutralsOk_hit:
  assumes ok: "neutralsOk R w" and n: "getNeutral w i = Some n" and d: "0 \<le> d"
    and dead: "neutral_health n - d \<le> 0 \<Longrightarrow> neutral_id n \<in> R'" and sub: "R \<subseteq> R'"
    and w': "neutrals w' = neutrals (modifyNeutral i (\<lambda>n. n\<lparr>neutral_health := neutral_health n - d\<rparr>) w)"
  shows "neutralsOk R' w'"
proof -
  let ?n' = "n\<lparr>neutral_health := neutral_health n - d\<rparr>"
  have i: "i < length (neutrals w)" and ni: "neutrals w ! i = n"
    using n by (auto simp: getNeutral_def split: if_splits)
  then have "n \<in> set (neutrals w)"
    by (metis nth_mem)
  with ok have old: "neutral_health n \<le> neutral_maxHealth n"
    by (simp add: neutralsOk_def list_all_iff)
  have eq: "neutrals w' = (neutrals w)[i := ?n']"
    using w' ni by (simp add: modifyNeutral_def)
  let ?P = "\<lambda>m. neutral_health m \<le> neutral_maxHealth m
                 \<and> (0 < neutral_health m \<or> neutral_id m \<in> R')"
  have sub': "set (neutrals w') \<subseteq> insert ?n' (set (neutrals w))"
    unfolding eq by (rule set_update_subset_insert)
  have new: "?P ?n'"
    using old d dead by (cases "neutral_health n - d \<le> 0") auto
  have others: "?P m" if "m \<in> set (neutrals w)" for m
    using ok sub that by (auto simp: neutralsOk_def list_all_iff)
  have "?P m" if "m \<in> set (neutrals w')" for m
  proof -
    from that sub' have "m = ?n' \<or> m \<in> set (neutrals w)" by auto
    then show ?thesis using new others by blast
  qed
  then show ?thesis
    by (simp add: neutralsOk_def list_all_iff)
qed

lemma bulletNeutralScan_frame:
  "bullets (fst (bulletNeutralScan b is st)) = bullets (fst st)
   \<and> drones (fst (bulletNeutralScan b is st)) = drones (fst st)"
  by (induction "is" arbitrary: st) (auto simp: Let_def split: option.splits)

lemma bulletNeutralScan_solo:
  assumes "0 \<le> damage b"
  shows "solo k (fst st) \<Longrightarrow> neutralsOk (snd (snd st)) (fst st)
    \<Longrightarrow> solo k (fst (bulletNeutralScan b is st))
        \<and> neutralsOk (snd (snd (bulletNeutralScan b is st))) (fst (bulletNeutralScan b is st))"
proof (induction "is" arbitrary: st)
  case Nil
  then show ?case by simp
next
  case (Cons i "is")
  show ?case
  proof (cases "getNeutral (fst st) i")
    case None
    with Cons show ?thesis by simp
  next
    case (Some neutral)
    let ?w1 = "modifyNeutral i (\<lambda>n. n\<lparr>neutral_health := neutral_health n - damage b\<rparr>) (fst st)"
    let ?w3 = "emit (awardXP ?w1 (bullet_ownerId b) (xpValue neutral))
                 (XpGained (neutral_x neutral) (neutral_y neutral) (xpValue neutral))"
    define skip where "skip \<longleftrightarrow> bullet_ownerId b = neutral_id neutral
        \<or> getPlayer (fst st) (bullet_ownerId b) = None \<or> \<not> hitsNeutral b neutral"
    have s1: "solo k ?w1"
      using Cons.prems(1) by (simp add: solo_def)
    have s3: "solo k ?w3"
      using solo_awardXP [OF s1] by (simp add: solo_def)
    consider (pass) "skip" | (lethal) "\<not> skip" "neutral_health neutral - damage b \<le> 0"
      | (wound) "\<not> skip" "\<not> neutral_health neutral - damage b \<le> 0"
      by blast
    then show ?thesis
    proof cases
      case pass
      then have "bulletNeutralScan b (i # is) st = bulletNeutralScan b is st"
        using Some by (auto simp: skip_def hitsNeutral_def Let_def)
      with Cons show ?thesis by simp
    next
      case lethal
      then have eq: "bulletNeutralScan b (i # is) st
          = (?w3, insert (bullet_id b) (fst (snd st)), insert (neutral_id neutral) (snd (snd st)))"
        using Some by (auto simp: skip_def hitsNeutral_def Let_def)
      have "neutralsOk (insert (neutral_id neutral) (snd (snd st))) ?w3"
        by (rule neutralsOk_hit [OF Cons.prems(2) Some assms]) auto
      with s3 show ?thesis unfolding eq by simp
    next
      case wound
      then have eq: "bulletNeutralScan b (i # is) st
          = (?w1, insert (bullet_id b) (fst (snd st)), snd (snd st))"
        using Some by (auto simp: skip_def hitsNeutral_def Let_def)
      have "neutralsOk (snd (snd st)) ?w1"
        by (rule neutralsOk_hit [OF Cons.prems(2) Some assms]) (use wound in auto)
      with s1 show ?thesis unfolding eq by simp
    qed
  qed
qed

lemma bulletNeutralLoop_frame:
  "bullets (fst (bulletNeutralLoop g bs st)) = bullets (fst st)
   \<and> drones (fst (bulletNeutralLoop g bs st)) = drones (fst st)"
  by (induction bs arbitrary: st) (simp_all add: bulletNeutralScan_frame)

lemma bulletNeutralLoop_solo:
  "list_all (\<lambda>b. 0 \<le> damage b) bs \<Longrightarrow> solo k (fst st) \<Longrightarrow> neutralsOk (snd (snd st)) (fst st)
   \<Longrightarrow> solo k (fst (bulletNeutralLoop g bs st))
       \<and> neutralsOk (snd (snd (bulletNeutralLoop g bs st))) (fst (bulletNeutralLoop g bs st))"
  by (induction bs arbitrary: st) (simp_all add: bulletNeutralScan_solo)

text \<open>Ship against ship: with at most one living ship there is no pair.\<close>

lemma shipShipScan_none:
  "(\<And>k j. playerIndex k = Some j \<Longrightarrow> j \<le> i) \<Longrightarrow> shipShipScan now playerIndex i k1 ks w = w"
  by (induction ks) (auto split: option.splits)

lemma checkShipShipCollisions_single:
  assumes "length livingPlayers \<le> 1"
  shows "checkShipShipCollisions now livingPlayers shipGrid w = w"
proof (cases livingPlayers)
  case Nil
  then show ?thesis by (simp add: checkShipShipCollisions_def)
next
  case (Cons k rest)
  with assms have lp: "livingPlayers = [k]" by simp
  show ?thesis
  proof (cases "getPlayer w k")
    case None
    then show ?thesis by (simp add: checkShipShipCollisions_def lp)
  next
    case (Some p1)
    have "shipShipScan now [player_id p1 \<mapsto> 0] 0 k ks w = w" for ks
      by (rule shipShipScan_none) (auto split: if_splits)
    with Some show ?thesis by (simp add: checkShipShipCollisions_def lp)
  qed
qed

text \<open>Drones: the only ship is the drone's owner.\<close>

lemma droneShipScan_owner:
  "solo k w \<Longrightarrow> getDrone w di = Some d \<Longrightarrow> drone_ownerId d = k \<Longrightarrow> droneShipScan now di ks w = w"
  by (induction ks) (auto dest: solo_getPlayer split: option.splits)

lemma droneNeutralScan_frame:
  "bullets (fst (droneNeutralScan di is st)) = bullets (fst st)
   \<and> drones (fst (droneNeutralScan di is st)) = drones (fst st)"
  by (induction "is" arbitrary: st) (auto simp: Let_def split: option.splits)

lemma droneNeutralScan_solo:
  "solo k (fst st) \<Longrightarrow> neutralsOk (snd st) (fst st)
    \<Longrightarrow> solo k (fst (droneNeutralScan di is st))
        \<and> neutralsOk (snd (droneNeutralScan di is st)) (fst (droneNeutralScan di is st))"
proof (induction "is" arbitrary: st)
  case Nil
  then show ?case by simp
next
  case (Cons i "is")
  show ?case
  proof (cases "getDrone (fst st) di")
    case None
    with Cons show ?thesis by simp
  next
    case drone: (Some drone)
    show ?thesis
    proof (cases "getNeutral (fst st) i")
      case None
      with Cons drone show ?thesis by simp
    next
      case (Some neutral)
      let ?w1 = "modifyNeutral i (\<lambda>n. n\<lparr>neutral_health := neutral_health n - DRONE_DAMAGE\<rparr>) (fst st)"
      let ?w3 = "emit (awardXP ?w1 (drone_ownerId drone) (xpValue neutral))
                   (XpGained (neutral_x neutral) (neutral_y neutral) (xpValue neutral))"
      define skip where "skip \<longleftrightarrow> neutral_id neutral \<in> snd st
        \<or> \<not> (drone_x drone - neutral_x neutral) * (drone_x drone - neutral_x neutral)
            + (drone_y drone - neutral_y neutral) * (drone_y drone - neutral_y neutral)
            < (DRONE_RADIUS + getNeutralRadius (neutral_type neutral))
               * (DRONE_RADIUS + getNeutralRadius (neutral_type neutral))"
      have dd: "0 \<le> DRONE_DAMAGE"
        by (simp add: DRONE_DAMAGE_def)
      have s1: "solo k ?w1"
        using Cons.prems(1) by (simp add: solo_def)
      have s3: "solo k ?w3"
        using solo_awardXP [OF s1] by (simp add: solo_def)
      consider (pass) "skip" | (lethal) "\<not> skip" "neutral_health neutral - DRONE_DAMAGE \<le> 0"
        | (wound) "\<not> skip" "\<not> neutral_health neutral - DRONE_DAMAGE \<le> 0"
        by blast
      then show ?thesis
      proof cases
        case pass
        then have "droneNeutralScan di (i # is) st = droneNeutralScan di is st"
          using Some drone by (auto simp: skip_def Let_def)
        with Cons show ?thesis by simp
      next
        case lethal
        then have eq: "droneNeutralScan di (i # is) st
            = droneNeutralScan di is (?w3, insert (neutral_id neutral) (snd st))"
          using Some drone by (simp add: skip_def Let_def)
        have "neutralsOk (insert (neutral_id neutral) (snd st)) ?w3"
          by (rule neutralsOk_hit [OF Cons.prems(2) Some dd]) auto
        with s3 Cons.IH [of "(?w3, insert (neutral_id neutral) (snd st))"]
        show ?thesis unfolding eq by simp
      next
        case wound
        then have eq: "droneNeutralScan di (i # is) st = droneNeutralScan di is (?w1, snd st)"
          using Some drone by (simp add: skip_def Let_def)
        have "neutralsOk (snd st) ?w1"
          by (rule neutralsOk_hit [OF Cons.prems(2) Some dd]) (use wound in auto)
        with s1 Cons.IH [of "(?w1, snd st)"]
        show ?thesis unfolding eq by simp
      qed
    qed
  qed
qed

lemma droneStep_solo:
  assumes s: "solo k (fst st)" and n: "neutralsOk (snd st) (fst st)"
  shows "solo k (fst (droneStep now shipGrid neutralGrid di st))
       \<and> neutralsOk (snd (droneStep now shipGrid neutralGrid di st))
           (fst (droneStep now shipGrid neutralGrid di st))
       \<and> bullets (fst (droneStep now shipGrid neutralGrid di st)) = bullets (fst st)
       \<and> length (drones (fst (droneStep now shipGrid neutralGrid di st))) = length (drones (fst st))"
proof (cases "getDrone (fst st) di")
  case None
  with assms show ?thesis by (simp add: droneStep_def)
next
  case (Some drone)
  show ?thesis
  proof (cases "getPlayer (fst st) (drone_ownerId drone)")
    case None
    with Some assms show ?thesis by (simp add: droneStep_def)
  next
    case owner: (Some p)
    from solo_getPlayer [OF s owner] have o: "drone_ownerId drone = k" by simp
    have scan: "droneShipScan now di ks (fst st) = fst st" for ks
      by (rule droneShipScan_owner [OF s Some o])
    have "droneStep now shipGrid neutralGrid di st
        = droneNeutralScan di
            (queryInto neutralGrid (drone_x drone) (drone_y drone) (DRONE_RADIUS + 30) []) st"
      using Some owner by (simp add: droneStep_def scan)
    then show ?thesis
      using droneNeutralScan_solo [OF s n] by (simp add: droneNeutralScan_frame)
  qed
qed


lemma droneLoop_solo:
  "solo k (fst st) \<Longrightarrow> neutralsOk (snd st) (fst st)
   \<Longrightarrow> solo k (fst (droneLoop now shipGrid neutralGrid dis st))
       \<and> neutralsOk (snd (droneLoop now shipGrid neutralGrid dis st))
           (fst (droneLoop now shipGrid neutralGrid dis st))
       \<and> bullets (fst (droneLoop now shipGrid neutralGrid dis st)) = bullets (fst st)"
proof (induction dis arbitrary: st)
  case Nil
  then show ?case by simp
next
  case (Cons di rest)
  from droneStep_solo [OF Cons.prems, of now shipGrid neutralGrid di]
    Cons.IH [of "droneStep now shipGrid neutralGrid di st"]
  show ?case by simp
qed

text \<open>
  A complement to claim C1, for a world with a single registered ship, the only kind the
  public interface builds (\<^verbatim>\<open>joinGame\<close> registers \<^verbatim>\<open>'local-player'\<close> and nothing else adds
  a player): if the ship's health is within \<open>[0, maxHealth]\<close>, every neutral's within
  \<open>(0, maxHealth]\<close> and no bullet has negative damage, the same holds after
  \<^verbatim>\<open>checkCollisions\<close>, and so in the snapshot taken from its result.
\<close>

theorem solo_collisions_keep_health:
  assumes s: "solo k w" and n: "neutralsOk {} w" and b: "bulletsOk w"
  shows "solo k (checkCollisions now w) \<and> neutralsOk {} (checkCollisions now w)
       \<and> bulletsOk (checkCollisions now w)
       \<and> list_all (\<lambda>s. 0 \<le> health s \<and> health s \<le> maxHealth s)
           (gs_ships (gameState t (checkCollisions now w)))
       \<and> list_all (\<lambda>n. 0 < neutral_health n \<and> neutral_health n \<le> neutral_maxHealth n)
           (gs_neutrals (gameState t (checkCollisions now w)))"
proof -
  define lp where "lp = map fst (filter (\<lambda>kp. \<not> isDead (snd kp)) (players w))"
  define sg where "sg = insertAll (newGrid 140)
                       (map (\<lambda>kp. (ship_x (ship (snd kp)), ship_y (ship (snd kp)), fst kp))
                          (filter (\<lambda>kp. \<not> isDead (snd kp)) (players w)))"
  define ng where "ng = insertAll (newGrid 140)
                          (map (\<lambda>i. (neutral_x (neutrals w ! i), neutral_y (neutrals w ! i), i))
                             [0..<length (neutrals w)])"
  define st1 where "st1 = checkBulletShipCollisions now sg (w, {})"
  define st2 where "st2 = checkBulletNeutralCollisions ng (fst st1, snd st1, {})"
  define w3 where "w3 = checkShipShipCollisions now lp sg (fst st2)"
  define st4 where "st4 = checkDroneCollisions now sg ng (w3, snd (snd st2))"
  define w5 where "w5 = (if fst (snd st2) \<noteq> {}
      then (fst st4)\<lparr>bullets := filter (\<lambda>b. bullet_id b \<notin> fst (snd st2)) (bullets (fst st4))\<rparr>
      else fst st4)"
  define w6 where "w6 = (if snd st4 \<noteq> {}
      then w5\<lparr>neutrals := filter (\<lambda>n. neutral_id n \<notin> snd st4) (neutrals w5)\<rparr> else w5)"
  have cc: "checkCollisions now w = w6"
    unfolding w6_def w5_def st4_def w3_def st2_def st1_def lp_def sg_def ng_def
      checkCollisions_def Let_def case_prod_beta
    by (rule refl)
  have bs: "list_all (\<lambda>b. 0 \<le> damage b) (bullets w)"
    using b by (simp add: bulletsOk_def)
  have s1: "solo k (fst st1)"
    unfolding st1_def checkBulletShipCollisions_def
    by (rule bulletShipLoop_solo) (use bs s in simp_all)
  have f1: "neutrals (fst st1) = neutrals w" "bullets (fst st1) = bullets w"
    unfolding st1_def checkBulletShipCollisions_def
    using bulletShipLoop_frame [of now sg "bullets w" "(w, {})"] by simp_all
  have n1: "neutralsOk {} (fst st1)"
    using n f1(1) by (simp add: neutralsOk_def)
  have sn2: "solo k (fst st2) \<and> neutralsOk (snd (snd st2)) (fst st2)"
    unfolding st2_def checkBulletNeutralCollisions_def
    by (rule bulletNeutralLoop_solo) (use bs s1 n1 f1 in simp_all)
  have f2: "bullets (fst st2) = bullets w"
    unfolding st2_def checkBulletNeutralCollisions_def
    using bulletNeutralLoop_frame [of ng "bullets (fst st1)" "(fst st1, snd st1, {})"] f1
    by simp
  have "length lp \<le> 1"
    using s by (auto simp: lp_def solo_def)
  then have w3: "w3 = fst st2"
    unfolding w3_def by (rule checkShipShipCollisions_single)
  have sn4: "solo k (fst st4) \<and> neutralsOk (snd st4) (fst st4)
      \<and> bullets (fst st4) = bullets w"
    unfolding st4_def checkDroneCollisions_def
    using droneLoop_solo [of k "(w3, snd (snd st2))" now sg ng] sn2 f2 w3 by simp
  have p5: "players w5 = players (fst st4)" "neutrals w5 = neutrals (fst st4)"
    and b5: "set (bullets w5) \<subseteq> set (bullets w)"
    using sn4 by (auto simp: w5_def)
  have p6: "players w6 = players (fst st4)"
    and b6: "set (bullets w6) \<subseteq> set (bullets w)"
    using p5 b5 by (auto simp: w6_def)
  have s6: "solo k w6"
    using sn4 p6 by (simp add: solo_def)
  have n6: "neutralsOk {} w6"
    using sn4 p5(2) by (auto simp: w6_def neutralsOk_def list_all_iff)
  have b6': "bulletsOk w6"
    using b b6 by (auto simp: bulletsOk_def list_all_iff)
  have ships: "list_all (\<lambda>s. 0 \<le> health s \<and> health s \<le> maxHealth s) (gs_ships (gameState t w6))"
    using s6 by (auto simp: solo_def shipOk_def gameState_def)
  have ns: "list_all (\<lambda>n. 0 < neutral_health n \<and> neutral_health n \<le> neutral_maxHealth n)
              (gs_neutrals (gameState t w6))"
    using n6 by (auto simp: neutralsOk_def gameState_def list_all_iff)
  show ?thesis
    unfolding cc using s6 n6 b6' ships ns by simp
qed

theorem solo_collisions_keep_health_witness:
  "solo ''local-player'' threeShots \<and> neutralsOk {} threeShots \<and> bulletsOk threeShots
   \<and> solo ''local-player'' (checkCollisions 5000 threeShots)
   \<and> neutralsOk {} (checkCollisions 5000 threeShots)
   \<and> bulletsOk (checkCollisions 5000 threeShots)
   \<and> list_all (\<lambda>s. 0 \<le> health s \<and> health s \<le> maxHealth s)
       (gs_ships (gameState 5000 (checkCollisions 5000 threeShots)))
   \<and> list_all (\<lambda>n. 0 < neutral_health n \<and> neutral_health n \<le> neutral_maxHealth n)
       (gs_neutrals (gameState 5000 (checkCollisions 5000 threeShots)))"
proof -
  have s: "solo ''local-player'' threeShots"
    by (simp add: solo_def shipOk_def threeShots_def twoShots_def buoyWorld_def spawnBullet_def
        Let_def localPlayerId_def scenario_eval)
  have n: "neutralsOk {} threeShots"
    by (simp add: neutralsOk_def threeShots_def twoShots_def buoyWorld_def spawnBullet_def
        Let_def scenario_eval)
  have b: "bulletsOk threeShots"
    by (simp add: bulletsOk_def threeShots_def twoShots_def buoyWorld_def spawnBullet_def
        Let_def scenario_eval)
  from solo_collisions_keep_health [OF s n b, of 5000 5000] s n b
  show ?thesis by simp
qed

end
